theory Spec2Isabelle
  imports Main "HOL-Library.Word" "HOL-Library.Signed_Division"
begin

section \<open>JavaScript strings and numbers\<close>

text \<open>
  A JavaScript string is a sequence of UTF-16 code units. All literals of \<^verbatim>\<open>App.jsx\<close>
  lie in the Basic Multilingual Plane, so one code unit is one character of the source
  text. \<open>lit\<close> embeds an ASCII literal; other characters are written as code units
  (the en dash of \<open>formatWeekRange\<close> is \<open>0x2013\<close>).
\<close>

type_synonym jsstring = "16 word list"

definition lit :: "string \<Rightarrow> jsstring" where
  "lit s = map of_char s"

definition digit :: "nat \<Rightarrow> 16 word" where
  "digit d = of_nat (48 + d)"

function decimal :: "nat \<Rightarrow> jsstring" where
  "decimal n = (if n < 10 then [digit n] else decimal (n div 10) @ [digit (n mod 10)])"
  by pat_completeness auto
termination
  by (relation "measure id") auto

text \<open>
  \<open>ToString\<close> is the conversion a template literal and \<^verbatim>\<open>String(n)\<close> apply to a number.
  The numbers of this program are integers (minutes, days of the month, the integer
  column \<^verbatim>\<open>start_mins\<close>), far below the magnitude where JavaScript switches to
  exponent notation, so they print as decimal digits with a leading minus sign.
\<close>

definition ToString :: "int \<Rightarrow> jsstring" where
  "ToString n = (if n < 0 then lit ''-'' @ decimal (nat (- n)) else decimal (nat n))"

text \<open>\<^verbatim>\<open>s.padStart(n, c)\<close> for a one-character filler \<open>c\<close>.\<close>

definition padStart :: "jsstring \<Rightarrow> nat \<Rightarrow> 16 word \<Rightarrow> jsstring" where
  "padStart s n c = replicate (n - length s) c @ s"

text \<open>
  The code units \<^verbatim>\<open>String.prototype.trim\<close> strips: ECMAScript's WhiteSpace (TAB, VT, FF,
  SP, NBSP, ZWNBSP and the category Zs) and LineTerminator (LF, CR, LS, PS).
\<close>

definition isWhiteSpace :: "16 word \<Rightarrow> bool" where
  "isWhiteSpace c =
     (c \<in> {0x9, 0xA, 0xB, 0xC, 0xD, 0x20, 0xA0, 0x1680, 0x2028, 0x2029, 0x202F, 0x205F,
            0x3000, 0xFEFF}
      \<or> (0x2000 \<le> c \<and> c \<le> 0x200A))"

definition trim :: "jsstring \<Rightarrow> jsstring" where
  "trim s = rev (dropWhile isWhiteSpace (rev (dropWhile isWhiteSpace s)))"

section \<open>Calendar math of \<^verbatim>\<open>App.jsx\<close>\<close>

definition DK_MONTH :: "jsstring list" where
  "DK_MONTH = map lit [''jan'', ''feb'', ''mar'', ''apr'', ''maj'', ''jun'',
                       ''jul'', ''aug'', ''sep'', ''okt'', ''nov'', ''dec'']"

text \<open>Indexing \<^verbatim>\<open>DK_MONTH[i]\<close>; out of range JavaScript yields \<^verbatim>\<open>undefined\<close>,
  which a template literal prints as that word.\<close>

definition DK_MONTH_at :: "int \<Rightarrow> jsstring" where
  "DK_MONTH_at i = (if 0 \<le> i \<and> i < 12 then DK_MONTH ! nat i else lit ''undefined'')"

definition pad2 :: "int \<Rightarrow> jsstring" where
  "pad2 n = padStart (ToString n) 2 0x30"

text \<open>\<^verbatim>\<open>Math.floor(mins / 60)\<close> is floor division; \<^verbatim>\<open>%\<close> is the remainder with the
  sign of the dividend.\<close>

definition minutesToHHMM :: "int \<Rightarrow> jsstring" where
  "minutesToHHMM mins =
     (let h = mins div 60; m = mins smod 60
      in pad2 h @ lit '':'' @ pad2 m)"

definition formatSlotLabel :: "int \<Rightarrow> jsstring" where
  "formatSlotLabel startMins =
     (let endMins = startMins + 60
      in minutesToHHMM startMins @ lit ''-'' @ minutesToHHMM endMins)"

record slot =
  slot_startMins :: int
  slot_label :: jsstring

text \<open>The \<^verbatim>\<open>for\<close> loop of \<open>buildSlots\<close>: \<open>m\<close> is the loop variable, \<open>slots\<close> the array
  built so far.\<close>

function buildSlots_loop :: "int \<Rightarrow> slot list \<Rightarrow> slot list" where
  "buildSlots_loop m slots =
     (if m < 17 * 60
      then buildSlots_loop (m + 60)
             (slots @ [\<lparr>slot_startMins = m, slot_label = formatSlotLabel m\<rparr>])
      else slots)"
  by pat_completeness auto
termination
  by (relation "measure (\<lambda>(m, slots). nat (17 * 60 - m))") auto

definition buildSlots :: "slot list" where
  "buildSlots = buildSlots_loop (8 * 60) []"

subsection \<open>The built-in \<^verbatim>\<open>Date\<close>\<close>

text \<open>
  A \<^verbatim>\<open>Date\<close> is its time value: milliseconds since 1970-01-01T00:00 UTC. The getters
  and setters the program uses (\<^verbatim>\<open>getDay\<close>, \<^verbatim>\<open>getDate\<close>, \<^verbatim>\<open>getMonth\<close>,
  \<^verbatim>\<open>getFullYear\<close>, \<^verbatim>\<open>setHours\<close>, \<^verbatim>\<open>setDate\<close>) are defined by ECMAScript through
  the abstract operations \<open>Day\<close>, \<open>TimeWithinDay\<close>, \<open>DayFromYear\<close>,
  \<open>YearFromTime\<close>, \<open>MonthFromTime\<close>, \<open>DateFromTime\<close>, \<open>WeekDay\<close>, \<open>MakeDay\<close>,
  \<open>MakeDate\<close>, \<open>LocalTime\<close> and \<open>UTC\<close> below: a getter reads the fields of
  \<open>LocalTime\<close> of the time value, a setter builds a local time value and converts it
  back with \<open>UTC\<close>. Time values are unbounded integers (no \<^verbatim>\<open>TimeClip\<close>). Every
  \<^verbatim>\<open>Date\<close> of the program comes from \<^verbatim>\<open>new Date()\<close> or from a copy or a shift of one,
  so the invalid date is not modelled.
\<close>

type_synonym time_value = int

definition msPerDay :: int where
  "msPerDay = 86400000"

definition Day :: "time_value \<Rightarrow> int" where
  "Day t = t div msPerDay"

definition TimeWithinDay :: "time_value \<Rightarrow> int" where
  "TimeWithinDay t = t mod msPerDay"

definition DayFromYear :: "int \<Rightarrow> int" where
  "DayFromYear y =
     365 * (y - 1970) + (y - 1969) div 4 - (y - 1901) div 100 + (y - 1601) div 400"

text \<open>
  ECMAScript: the largest year \<open>y\<close> with \<open>DayFromYear y \<le> Day t\<close>. Computed from the
  mean length of a Gregorian year (146097 days in 400 years) and corrected by one;
  \<open>YearFromTime_correct\<close> below proves that this is that year.
\<close>

definition YearFromTime :: "time_value \<Rightarrow> int" where
  "YearFromTime t =
     (let d = Day t; y = 1970 + (400 * d) div 146097
      in if d < DayFromYear y then y - 1
         else if DayFromYear (y + 1) \<le> d then y + 1
         else y)"

definition DaysInYear :: "int \<Rightarrow> int" where
  "DaysInYear y =
     (if y mod 4 \<noteq> 0 then 365
      else if y mod 100 \<noteq> 0 then 366
      else if y mod 400 \<noteq> 0 then 365
      else 366)"

definition InLeapYearOf :: "int \<Rightarrow> int" where
  "InLeapYearOf y = (if DaysInYear y = 366 then 1 else 0)"

definition InLeapYear :: "time_value \<Rightarrow> int" where
  "InLeapYear t = InLeapYearOf (YearFromTime t)"

definition DayWithinYear :: "time_value \<Rightarrow> int" where
  "DayWithinYear t = Day t - DayFromYear (YearFromTime t)"

text \<open>The day within the year on which month \<open>m\<close> (0 = January) starts, \<open>L\<close> being 1
  in a leap year and 0 otherwise.\<close>

definition monthStart :: "int \<Rightarrow> int \<Rightarrow> int" where
  "monthStart m L =
     (if m = 0 then 0 else if m = 1 then 31 else if m = 2 then 59 + L
      else if m = 3 then 90 + L else if m = 4 then 120 + L else if m = 5 then 151 + L
      else if m = 6 then 181 + L else if m = 7 then 212 + L else if m = 8 then 243 + L
      else if m = 9 then 273 + L else if m = 10 then 304 + L else 334 + L)"

definition MonthFromTime :: "time_value \<Rightarrow> int" where
  "MonthFromTime t =
     (let dwy = DayWithinYear t; L = InLeapYear t
      in if dwy < 31 then 0 else if dwy < 59 + L then 1 else if dwy < 90 + L then 2
         else if dwy < 120 + L then 3 else if dwy < 151 + L then 4
         else if dwy < 181 + L then 5 else if dwy < 212 + L then 6
         else if dwy < 243 + L then 7 else if dwy < 273 + L then 8
         else if dwy < 304 + L then 9 else if dwy < 334 + L then 10 else 11)"

definition DateFromTime :: "time_value \<Rightarrow> int" where
  "DateFromTime t = DayWithinYear t - monthStart (MonthFromTime t) (InLeapYear t) + 1"

definition WeekDay :: "time_value \<Rightarrow> int" where
  "WeekDay t = (Day t + 4) mod 7"

definition MakeDay :: "int \<Rightarrow> int \<Rightarrow> int \<Rightarrow> int" where
  "MakeDay year month date =
     (let ym = year + month div 12; mn = month mod 12
      in DayFromYear ym + monthStart mn (InLeapYearOf ym) + date - 1)"

definition MakeTime :: "int \<Rightarrow> int \<Rightarrow> int \<Rightarrow> int \<Rightarrow> int" where
  "MakeTime hour minute sec ms = hour * 3600000 + minute * 60000 + sec * 1000 + ms"

definition MakeDate :: "int \<Rightarrow> int \<Rightarrow> time_value" where
  "MakeDate day time = day * msPerDay + time"

text \<open>
  The time zone of the host is ECMAScript's \<^verbatim>\<open>LocalTZA(t, isUTC)\<close>, a parameter \<open>z\<close> of
  every function that reads or builds local time: \<open>z t True\<close> is the offset from UTC
  in force at the instant \<open>t\<close>, and \<open>z t False\<close> is the offset by which the local
  time value \<open>t\<close> is read. Where a transition of the zone skips or repeats local times,
  ECMAScript reads such a local time with the offset before the transition.
\<close>

type_synonym zone = "time_value \<Rightarrow> bool \<Rightarrow> int"

definition LocalTime :: "zone \<Rightarrow> time_value \<Rightarrow> time_value" where
  "LocalTime z t = t + z t True"

definition UTC :: "zone \<Rightarrow> time_value \<Rightarrow> time_value" where
  "UTC z t = t - z t False"

text \<open>\<^verbatim>\<open>new Date(year, monthIndex, day, hours, minutes)\<close>: a local date and time.\<close>

definition newDate :: "zone \<Rightarrow> int \<Rightarrow> int \<Rightarrow> int \<Rightarrow> int \<Rightarrow> int \<Rightarrow> time_value" where
  "newDate z year monthIndex day hours minutes =
     UTC z (MakeDate (MakeDay year monthIndex day) (MakeTime hours minutes 0 0))"

definition getDay :: "zone \<Rightarrow> time_value \<Rightarrow> int" where
  "getDay z d = WeekDay (LocalTime z d)"

definition getDate :: "zone \<Rightarrow> time_value \<Rightarrow> int" where
  "getDate z d = DateFromTime (LocalTime z d)"

definition getMonth :: "zone \<Rightarrow> time_value \<Rightarrow> int" where
  "getMonth z d = MonthFromTime (LocalTime z d)"

definition getFullYear :: "zone \<Rightarrow> time_value \<Rightarrow> int" where
  "getFullYear z d = YearFromTime (LocalTime z d)"

definition setHours :: "zone \<Rightarrow> time_value \<Rightarrow> int \<Rightarrow> int \<Rightarrow> int \<Rightarrow> int \<Rightarrow> time_value" where
  "setHours z d hour minute sec ms =
     (let t = LocalTime z d
      in UTC z (MakeDate (Day t) (MakeTime hour minute sec ms)))"

definition setDate :: "zone \<Rightarrow> time_value \<Rightarrow> int \<Rightarrow> time_value" where
  "setDate z d dt =
     (let t = LocalTime z d
      in UTC z (MakeDate (MakeDay (YearFromTime t) (MonthFromTime t) dt) (TimeWithinDay t)))"


text \<open>The offsets of a zone are below a day in size (real zones lie between 12 hours
  behind and 14 hours ahead of UTC).\<close>

definition boundedZone :: "zone \<Rightarrow> bool" where
  "boundedZone z = (\<forall>t isUTC. \<bar>z t isUTC\<bar> \<le> msPerDay)"

text \<open>A zone of constant offset \<open>c\<close>, and central European time, one hour ahead.\<close>

definition fixedZone :: "int \<Rightarrow> zone" where
  "fixedZone c = (\<lambda>t isUTC. c)"

definition cet :: zone where
  "cet = fixedZone 3600000"

text \<open>
  America/Santiago around its transition of 2025-09-07: at 04:00 UTC, local midnight,
  the clocks go from four to three hours behind UTC, so the local times from 00:00 to
  01:00 of that Sunday are skipped. The other transitions of the zone are left out.
\<close>

definition santiago :: zone where
  "santiago t isUTC =
     (if isUTC
      then (if t < MakeDate (MakeDay 2025 8 7) (MakeTime 4 0 0 0)
            then - 14400000 else - 10800000)
      else (if t < MakeDate (MakeDay 2025 8 7) (MakeTime 1 0 0 0)
            then - 14400000 else - 10800000))"

subsection \<open>Date functions of the program\<close>

definition toISODate :: "zone \<Rightarrow> time_value \<Rightarrow> jsstring" where
  "toISODate z d =
     (let year = getFullYear z d; month = pad2 (getMonth z d + 1); day = pad2 (getDate z d)
      in ToString year @ lit ''-'' @ month @ lit ''-'' @ day)"

definition addDays :: "zone \<Rightarrow> time_value \<Rightarrow> int \<Rightarrow> time_value" where
  "addDays z dateLike days = setDate z dateLike (getDate z dateLike + days)"

definition startOfWeekMonday :: "zone \<Rightarrow> time_value \<Rightarrow> time_value" where
  "startOfWeekMonday z dateLike =
     (let day = getDay z dateLike;
          diffToMonday = (day + 6) smod 7;
          d = setHours z dateLike 0 0 0 0
      in setDate z d (getDate z d - diffToMonday))"

definition formatWeekRange :: "zone \<Rightarrow> time_value \<Rightarrow> jsstring" where
  "formatWeekRange z mondayLike =
     (let start = mondayLike;
          end = addDays z start 4;
          sDay = getDate z start;
          sMonth = DK_MONTH_at (getMonth z start);
          eDay = getDate z end;
          eMonth = DK_MONTH_at (getMonth z end)
      in if getMonth z start = getMonth z end
         then ToString sDay @ lit ''.'' @ [0x2013] @ ToString eDay @ lit ''. '' @ sMonth
         else ToString sDay @ lit ''. '' @ sMonth @ lit '' '' @ [0x2013] @ lit '' ''
              @ ToString eDay @ lit ''. '' @ eMonth)"

section \<open>Bookings and the slot index\<close>

text \<open>The \<^verbatim>\<open>activeCell\<close> object \<^verbatim>\<open>{ room, date, startMins }\<close>, and a booking, which has
  these three fields and \<^verbatim>\<open>name\<close>. \<^verbatim>\<open>startMins\<close> is an integer: the slots hold integers
  and the column \<^verbatim>\<open>start_mins\<close> is declared \<^verbatim>\<open>integer\<close>.\<close>

record cell =
  room :: jsstring
  date :: jsstring
  startMins :: int

record booking = cell +
  name :: jsstring

text \<open>The test of the three \<^verbatim>\<open>filter\<close> callbacks of \<open>confirmCreate\<close> and
  \<open>confirmDelete\<close>: \<^verbatim>\<open>b.room === activeCell.room && b.date === activeCell.date &&
  b.startMins === activeCell.startMins\<close>.\<close>

definition atCell :: "cell \<Rightarrow> booking \<Rightarrow> bool" where
  "atCell ac b = (room b = room ac \<and> date b = date ac \<and> startMins b = startMins ac)"

definition bookingKey :: "jsstring \<Rightarrow> jsstring \<Rightarrow> int \<Rightarrow> jsstring" where
  "bookingKey r d m = r @ lit ''__'' @ d @ lit ''__'' @ ToString m"

text \<open>The \<^verbatim>\<open>Map\<close> of \<^verbatim>\<open>useMemo\<close>: entries are set in the order of the array, so a later
  booking with the same key replaces an earlier one.\<close>

definition bookingsIndex :: "booking list \<Rightarrow> (jsstring \<rightharpoonup> booking)" where
  "bookingsIndex bs =
     foldl (\<lambda>index b. index(bookingKey (room b) (date b) (startMins b) \<mapsto> b)) Map.empty bs"

text \<open>The composite key of the data model: the triple itself.\<close>

definition cellOf :: "booking \<Rightarrow> jsstring \<times> jsstring \<times> int" where
  "cellOf b = (room b, date b, startMins b)"

definition keyUnique :: "booking list \<Rightarrow> bool" where
  "keyUnique bs = distinct (map cellOf bs)"

subsection \<open>Rows received from the store\<close>

text \<open>A property of a received row is any JSON value (a missing property reads as
  \<^verbatim>\<open>undefined\<close>). JSON numbers are modelled by integers.\<close>

datatype jsval =
  Undefined | Null | Boolean bool | Number (the_number: int) | JString (the_string: jsstring)

fun typeof :: "jsval \<Rightarrow> string" where
  "typeof Undefined = ''undefined''"
| "typeof Null = ''object''"
| "typeof (Boolean b) = ''boolean''"
| "typeof (Number n) = ''number''"
| "typeof (JString s) = ''string''"

text \<open>A row of the table \<^verbatim>\<open>bookings\<close> as \<^verbatim>\<open>select("*")\<close> returns it: every element
  of \<^verbatim>\<open>data\<close> is an object.\<close>

record row =
  row_room :: jsval
  row_date :: jsval
  row_start_mins :: jsval
  row_name :: jsval

text \<open>The object \<^verbatim>\<open>{ room, date, startMins, name }\<close> that \<open>fetchBookings\<close> builds from a
  row and hands to \<open>normalizeBookings\<close>.\<close>

record raw_booking =
  raw_room :: jsval
  raw_date :: jsval
  raw_startMins :: jsval
  raw_name :: jsval

definition wellTyped :: "raw_booking \<Rightarrow> bool" where
  "wellTyped b =
     (typeof (raw_room b) = ''string'' \<and> typeof (raw_date b) = ''string''
      \<and> typeof (raw_startMins b) = ''number'' \<and> typeof (raw_name b) = ''string'')"

text \<open>\<open>normalizeBookings\<close> is only called on an array (the result of \<^verbatim>\<open>map\<close>), whose
  elements are objects, so \<^verbatim>\<open>Array.isArray(raw)\<close> and \<^verbatim>\<open>b &&\<close> hold.\<close>

definition normalizeBookings :: "raw_booking list \<Rightarrow> booking list" where
  "normalizeBookings raw =
     map (\<lambda>b. \<lparr>room = the_string (raw_room b), date = the_string (raw_date b),
                startMins = the_number (raw_startMins b),
                name = trim (the_string (raw_name b))\<rparr>)
       (filter wellTyped raw)"

text \<open>What a fetch admits of one row, by the shape of the row: the booking of a
  well-typed row with its name trimmed, nothing of any other row. It is compared with
  \<open>normalizeBookings\<close> in \<open>fetched_rows\<close> below.\<close>

definition admitted :: "row \<Rightarrow> booking list" where
  "admitted x =
     (case (row_room x, row_date x, row_start_mins x, row_name x) of
        (JString r, JString d, Number m, JString n) \<Rightarrow>
          [\<lparr>room = r, date = d, startMins = m, name = trim n\<rparr>]
      | _ \<Rightarrow> [])"

section \<open>The session: state of \<open>App\<close> and its handlers\<close>

datatype modal_mode = Create | Delete

text \<open>The error object of a failed store call. The program never inspects it.\<close>

datatype store_error = Conflict | Failure

datatype store_result = Ok | Failed store_error

datatype fetch_result = FetchFailed store_error | FetchData "row list option"

text \<open>Calls of \<^verbatim>\<open>console.error\<close>.\<close>

datatype log_entry = SupabaseFejl store_error | Logged store_error

text \<open>A store call issued by a handler, with what its continuation captured.\<close>

datatype store_call =
  Insert jsstring cell jsstring
| DeleteById jsstring

record session =
  selectedRoom :: "jsstring option"
  weekStart :: time_value
  bookings :: "booking list"
  loading :: bool
  modalOpen :: bool
  modalMode :: modal_mode
  activeCell :: "cell option"
  nameInput :: jsstring
  errorMsg :: jsstring
  bookingsSnapshotRef :: "booking list"
  console :: "log_entry list"

definition msg_enter_name :: jsstring where
  "msg_enter_name = lit ''Indtast venligst dit navn.''"

definition msg_already_booked :: jsstring where
  "msg_already_booked = lit ''Tidsrummet er allerede booket.''"

definition msg_save_failed :: jsstring where
  "msg_save_failed = lit ''Kunne ikke gemme booking. Pr'' @ [0xF8] @ lit ''v igen.''"

definition msg_delete_failed :: jsstring where
  "msg_delete_failed = lit ''Kunne ikke slette booking. Pr'' @ [0xF8] @ lit ''v igen.''"

text \<open>The initial values of the \<^verbatim>\<open>useState\<close> and \<^verbatim>\<open>useRef\<close> hooks; \<open>now\<close> is the
  reading of the clock by \<^verbatim>\<open>new Date()\<close>.\<close>

definition initial :: "zone \<Rightarrow> time_value \<Rightarrow> session" where
  "initial z now =
     \<lparr>selectedRoom = None, weekStart = startOfWeekMonday z now, bookings = [],
      loading = True, modalOpen = False, modalMode = Create, activeCell = None,
      nameInput = [], errorMsg = [], bookingsSnapshotRef = [], console = []\<rparr>"

text \<open>
  A handler runs on the state of the latest render, and every state update it makes is
  applied before the next event is handled. An \<^verbatim>\<open>async\<close> handler is split at its
  \<^verbatim>\<open>await\<close>: the first part returns the new state and the store call it issued (if any);
  the part after the \<^verbatim>\<open>await\<close> is a second function, run when the call resolves, on the
  state of that later moment, with the variables the closure captured as arguments.
\<close>

definition selectRoom :: "session \<Rightarrow> jsstring \<Rightarrow> session" where
  "selectRoom s r =
     (let s1 = s\<lparr>selectedRoom := Some r\<rparr>
      in if selectedRoom s = Some r \<or> r = [] then s1 else s1\<lparr>loading := True\<rparr>)"

definition fetchBookings_resolved :: "session \<Rightarrow> bool \<Rightarrow> fetch_result \<Rightarrow> session" where
  "fetchBookings_resolved s isMounted res =
     (case res of
        FetchFailed error \<Rightarrow>
          (let s1 = s\<lparr>console := console s @ [SupabaseFejl error]\<rparr>
           in if isMounted then s1\<lparr>loading := False\<rparr> else s1)
      | FetchData data \<Rightarrow>
          (let normalized =
                 normalizeBookings
                   (map (\<lambda>b. \<lparr>raw_room = row_room b, raw_date = row_date b,
                              raw_startMins = row_start_mins b, raw_name = row_name b\<rparr>)
                      (case data of None \<Rightarrow> [] | Some rows \<Rightarrow> rows))
           in if isMounted then s\<lparr>bookings := normalized, loading := False\<rparr> else s))"

definition openCreateModal :: "session \<Rightarrow> jsstring \<Rightarrow> jsstring \<Rightarrow> int \<Rightarrow> session" where
  "openCreateModal s r d m =
     s\<lparr>errorMsg := [], modalMode := Create,
       activeCell := Some \<lparr>room = r, date = d, startMins = m\<rparr>,
       nameInput := [], modalOpen := True\<rparr>"

definition openDeleteModal :: "session \<Rightarrow> jsstring \<Rightarrow> jsstring \<Rightarrow> int \<Rightarrow> session" where
  "openDeleteModal s r d m =
     s\<lparr>errorMsg := [], modalMode := Delete,
       activeCell := Some \<lparr>room = r, date = d, startMins = m\<rparr>,
       nameInput := [], modalOpen := True\<rparr>"

definition closeModal :: "session \<Rightarrow> session" where
  "closeModal s = s\<lparr>modalOpen := False, activeCell := None, nameInput := [], errorMsg := []\<rparr>"

definition confirmCreate :: "session \<Rightarrow> session \<times> store_call option" where
  "confirmCreate s =
     (case activeCell s of
        None \<Rightarrow> (s, None)
      | Some ac \<Rightarrow>
          (let nm = trim (nameInput s)
           in if nm = [] then (s\<lparr>errorMsg := msg_enter_name\<rparr>, None)
              else
                (let id = bookingKey (room ac) (date ac) (startMins ac)
                 in if bookingsIndex (bookings s) id \<noteq> None
                    then (s\<lparr>errorMsg := msg_already_booked\<rparr>, None)
                    else
                      (s\<lparr>bookings :=
                           filter (\<lambda>b. \<not> atCell ac b) (bookings s)
                           @ [\<lparr>room = room ac, date = date ac, startMins = startMins ac,
                               name = nm\<rparr>]\<rparr>,
                       Some (Insert id ac nm)))))"

text \<open>After the \<^verbatim>\<open>await\<close> of \<open>confirmCreate\<close>: \<open>ac\<close> is the captured \<^verbatim>\<open>activeCell\<close>. A
  rejected promise and a returned \<^verbatim>\<open>error\<close> both reach the \<^verbatim>\<open>catch\<close> block.\<close>

definition confirmCreate_resolved :: "session \<Rightarrow> cell \<Rightarrow> store_result \<Rightarrow> session" where
  "confirmCreate_resolved s ac res =
     (case res of
        Ok \<Rightarrow> closeModal s
      | Failed e \<Rightarrow>
          s\<lparr>console := console s @ [Logged e],
            bookings := filter (\<lambda>b. \<not> atCell ac b) (bookings s),
            errorMsg := msg_save_failed\<rparr>)"

definition confirmDelete :: "session \<Rightarrow> session \<times> store_call option" where
  "confirmDelete s =
     (case activeCell s of
        None \<Rightarrow> (s, None)
      | Some ac \<Rightarrow>
          (let id = bookingKey (room ac) (date ac) (startMins ac)
           in (s\<lparr>bookingsSnapshotRef := bookings s,
                 bookings := filter (\<lambda>b. \<not> atCell ac b) (bookings s)\<rparr>,
               Some (DeleteById id))))"

definition confirmDelete_resolved :: "session \<Rightarrow> store_result \<Rightarrow> session" where
  "confirmDelete_resolved s res =
     (case res of
        Ok \<Rightarrow> closeModal s
      | Failed e \<Rightarrow>
          s\<lparr>console := console s @ [Logged e],
            bookings := bookingsSnapshotRef s,
            errorMsg := msg_delete_failed\<rparr>)"

definition onClickSlot :: "zone \<Rightarrow> session \<Rightarrow> time_value \<Rightarrow> int \<Rightarrow> session" where
  "onClickSlot z s dateObj m =
     (case selectedRoom s of
        None \<Rightarrow> s
      | Some r \<Rightarrow>
          if r = [] then s
          else
            (let d = toISODate z dateObj;
                 key = bookingKey r d m;
                 existing = bookingsIndex (bookings s) key
             in if existing \<noteq> None then openDeleteModal s r d m
                else openCreateModal s r d m))"

definition resetToRoomSelection :: "zone \<Rightarrow> session \<Rightarrow> time_value \<Rightarrow> session" where
  "resetToRoomSelection z s now =
     s\<lparr>selectedRoom := None, weekStart := startOfWeekMonday z now\<rparr>"

text \<open>
  The events of a session, handled in the host's zone \<open>z\<close>. \<open>SelectRoom\<close> is a click in \<^verbatim>\<open>RoomSelection\<close> followed by the
  effect on \<^verbatim>\<open>selectedRoom\<close>; \<open>FetchResolved\<close> is the resolution of a \<open>fetchBookings\<close>
  call (issued by that effect or by a change notification), with the value of
  \<^verbatim>\<open>isMounted\<close> it finds; \<open>InsertResolved\<close> and \<open>DeleteResolved\<close> are the resolutions of
  the store calls of \<open>confirmCreate\<close> and \<open>confirmDelete\<close>; \<open>PrevWeek\<close> and \<open>NextWeek\<close>
  are the two buttons of \<^verbatim>\<open>CalendarView\<close>.
\<close>

datatype event =
  SelectRoom jsstring
| FetchResolved bool fetch_result
| OnClickSlot time_value int
| CloseModal
| SetNameInput jsstring
| ConfirmCreate
| InsertResolved cell store_result
| ConfirmDelete
| DeleteResolved store_result
| PrevWeek
| NextWeek
| ResetToRoomSelection time_value

fun step :: "zone \<Rightarrow> session \<Rightarrow> event \<Rightarrow> session" where
  "step z s (SelectRoom r) = selectRoom s r"
| "step z s (FetchResolved isMounted res) = fetchBookings_resolved s isMounted res"
| "step z s (OnClickSlot dateObj m) = onClickSlot z s dateObj m"
| "step z s CloseModal = closeModal s"
| "step z s (SetNameInput v) = s\<lparr>nameInput := v\<rparr>"
| "step z s ConfirmCreate = fst (confirmCreate s)"
| "step z s (InsertResolved ac res) = confirmCreate_resolved s ac res"
| "step z s ConfirmDelete = fst (confirmDelete s)"
| "step z s (DeleteResolved res) = confirmDelete_resolved s res"
| "step z s PrevWeek = s\<lparr>weekStart := addDays z (weekStart s) (- 7)\<rparr>"
| "step z s NextWeek = s\<lparr>weekStart := addDays z (weekStart s) 7\<rparr>"
| "step z s (ResetToRoomSelection now) = resetToRoomSelection z s now"

definition run :: "zone \<Rightarrow> session \<Rightarrow> event list \<Rightarrow> session" where
  "run z s evs = foldl (step z) s evs"

text \<open>The events of create and delete flows whose store calls succeed: everything but
  a fetch result and a failed insert or delete.\<close>

fun successful :: "event \<Rightarrow> bool" where
  "successful (FetchResolved isMounted res) = False"
| "successful (InsertResolved ac (Failed e)) = False"
| "successful (DeleteResolved (Failed e)) = False"
| "successful ev = True"

section \<open>A sample session\<close>

definition ROOMS :: "jsstring list" where
  "ROOMS = map lit [''Lokale 301 (22 personer)'', ''Lokale 308 (6 personer)'',
                    ''Lokale 315 (6 personer)'']"

definition room308 :: jsstring where
  "room308 = ROOMS ! 1"

definition mkRow :: "jsstring \<Rightarrow> jsstring \<Rightarrow> int \<Rightarrow> jsstring \<Rightarrow> row" where
  "mkRow r d m n =
     \<lparr>row_room = JString r, row_date = JString d, row_start_mins = Number m,
      row_name = JString n\<rparr>"

definition bo :: booking where
  "bo = \<lparr>room = room308, date = lit ''2025-03-10'', startMins = 540, name = lit ''Bo''\<rparr>"

definition eva :: booking where
  "eva = \<lparr>room = room308, date = lit ''2025-03-11'', startMins = 600, name = lit ''Eva''\<rparr>"

definition ida :: booking where
  "ida = \<lparr>room = room308, date = lit ''2025-03-10'', startMins = 600, name = lit ''Ida''\<rparr>"

definition slotBo :: cell where
  "slotBo = \<lparr>room = room308, date = lit ''2025-03-10'', startMins = 540\<rparr>"

definition slotIda :: cell where
  "slotIda = \<lparr>room = room308, date = lit ''2025-03-10'', startMins = 600\<rparr>"

text \<open>Wednesday 2025-03-12, 09:00 central European time: room 308 is selected and the
  fetch returns the bookings of Bo (Monday 09:00) and Eva (Tuesday 10:00).\<close>

definition ready :: session where
  "ready =
     run cet (initial cet (newDate cet 2025 2 12 9 0))
       [SelectRoom room308,
        FetchResolved True
          (FetchData (Some [mkRow room308 (lit ''2025-03-10'') 540 (lit ''Bo''),
                            mkRow room308 (lit ''2025-03-11'') 600 (lit '' Eva '')]))]"

text \<open>The user clicks the free slot of Monday 10:00 and types a name.\<close>

definition creating :: session where
  "creating =
     run cet ready [OnClickSlot (newDate cet 2025 2 10 0 0) 600, SetNameInput (lit '' Ida '')]"

text \<open>The user clicks the slot booked by Bo.\<close>

definition deleting :: session where
  "deleting = run cet ready [OnClickSlot (newDate cet 2025 2 10 0 0) 540]"

section \<open>Slot generation\<close>

lemma buildSlots_unfold:
  "buildSlots =
     map (\<lambda>m. \<lparr>slot_startMins = m, slot_label = formatSlotLabel m\<rparr>)
       [480, 540, 600, 660, 720, 780, 840, 900, 960]"
  by (simp add: buildSlots_def)

lemma slot_labels:
  "map formatSlotLabel [480, 540, 600, 660, 720, 780, 840, 900, 960] =
     map lit [''08:00-09:00'', ''09:00-10:00'', ''10:00-11:00'', ''11:00-12:00'',
              ''12:00-13:00'', ''13:00-14:00'', ''14:00-15:00'', ''15:00-16:00'',
              ''16:00-17:00'']"
  by code_simp

text \<open>
  Claim C7. \<open>buildSlots\<close> yields exactly 9 slots, with start minutes 480, 540, ..., 960
  and the zero-padded 24-hour labels "08:00-09:00" through "16:00-17:00"; the start
  minutes are strictly increasing, and the slots are contiguous and do not overlap: the
  end of each slot (its start plus 60 minutes) is the start of the next one.
\<close>

theorem buildSlots_nine_contiguous:
  "length buildSlots = 9
   \<and> map slot_startMins buildSlots = [480, 540, 600, 660, 720, 780, 840, 900, 960]
   \<and> map slot_label buildSlots =
       map lit [''08:00-09:00'', ''09:00-10:00'', ''10:00-11:00'', ''11:00-12:00'',
                ''12:00-13:00'', ''13:00-14:00'', ''14:00-15:00'', ''15:00-16:00'',
                ''16:00-17:00'']
   \<and> sorted_wrt (<) (map slot_startMins buildSlots)
   \<and> map (\<lambda>s. slot_startMins s + 60) (butlast buildSlots) = map slot_startMins (tl buildSlots)"
proof -
  have "map slot_label buildSlots =
      map formatSlotLabel [480, 540, 600, 660, 720, 780, 840, 900, 960]"
    unfolding buildSlots_unfold by simp
  then show ?thesis
    unfolding slot_labels by (simp add: buildSlots_unfold)
qed

section \<open>Calendar math\<close>

lemma div_bounds:
  fixes x k :: int
  assumes "0 < k"
  shows "k * (x div k) \<le> x" and "x < k * (x div k) + k"
proof -
  have "k * (x div k) + x mod k = x" by simp
  moreover have "0 \<le> x mod k" "x mod k < k" using assms by simp_all
  ultimately show "k * (x div k) \<le> x" and "x < k * (x div k) + k" by linarith+
qed

lemma leap_days_bounds:
  fixes n :: int
  defines "w \<equiv> (n + 1) div 4 - (n + 69) div 100 + (n + 369) div 400"
  shows "97 * n - 506 \<le> 400 * w" and "400 * w \<le> 97 * n + 589"
proof -
  define a b c where "a = (n + 1) div 4" and "b = (n + 69) div 100" and "c = (n + 369) div 400"
  have "4 * a \<le> n + 1" "n + 1 < 4 * a + 4" "100 * b \<le> n + 69" "n + 69 < 100 * b + 100"
    "400 * c \<le> n + 369" "n + 369 < 400 * c + 400"
    unfolding a_def b_def c_def by (simp_all add: div_bounds)
  moreover have "w = a - b + c" by (simp add: w_def a_def b_def c_def)
  ultimately show "97 * n - 506 \<le> 400 * w" and "400 * w \<le> 97 * n + 589"
    by linarith+
qed

lemma DayFromYear_split:
  "DayFromYear (1970 + n) = 365 * n + ((n + 1) div 4 - (n + 69) div 100 + (n + 369) div 400)"
  by (simp add: DayFromYear_def add.commute)

lemma DayFromYear_bounds:
  fixes n :: int and Z :: int
  assumes "Z = 146097 * n"
  shows "Z - 506 \<le> 400 * DayFromYear (1970 + n)" and "400 * DayFromYear (1970 + n) \<le> Z + 589"
proof -
  define w where "w = (n + 1) div 4 - (n + 69) div 100 + (n + 369) div 400"
  have w: "97 * n - 506 \<le> 400 * w" "400 * w \<le> 97 * n + 589"
    unfolding w_def by (rule leap_days_bounds)+
  have Z: "Z = 146000 * n + 97 * n" using assms by simp
  have D: "400 * DayFromYear (1970 + n) = 146000 * n + 400 * w"
    by (simp add: DayFromYear_split w_def)
  define u where "u = 146000 * n"
  show "Z - 506 \<le> 400 * DayFromYear (1970 + n)" and "400 * DayFromYear (1970 + n) \<le> Z + 589"
    using w Z D unfolding u_def [symmetric] by linarith+
qed

lemma YearFromTime_correct:
  "DayFromYear (YearFromTime t) \<le> Day t \<and> Day t < DayFromYear (YearFromTime t + 1)"
proof -
  define d where "d = Day t"
  define q where "q = (400 * d) div 146097"
  define Z where "Z = 146097 * q"
  have q: "Z \<le> 400 * d" "400 * d < Z + 146097"
    unfolding Z_def q_def by (simp_all add: div_bounds)
  have "400 * DayFromYear (1970 + (q - 1)) \<le> (Z - 146097) + 589"
    by (rule DayFromYear_bounds) (simp add: Z_def algebra_simps)
  with q have lo: "DayFromYear (1970 + q - 1) \<le> d" by simp
  have "(Z + 2 * 146097) - 506 \<le> 400 * DayFromYear (1970 + (q + 2))"
    by (rule DayFromYear_bounds) (simp add: Z_def algebra_simps)
  with q have hi: "d < DayFromYear (1970 + q + 1 + 1)" by (simp add: add.assoc)
  have "YearFromTime t =
      (if d < DayFromYear (1970 + q) then 1970 + q - 1
       else if DayFromYear (1970 + q + 1) \<le> d then 1970 + q + 1 else 1970 + q)"
    by (simp add: YearFromTime_def Let_def d_def q_def)
  then show ?thesis
    using lo hi by (auto simp: d_def [symmetric])
qed

lemma MonthFromTime_range: "0 \<le> MonthFromTime t \<and> MonthFromTime t \<le> 11"
  by (simp add: MonthFromTime_def Let_def)

lemma MakeDay_of_time:
  "MakeDay (YearFromTime t) (MonthFromTime t) (DateFromTime t + k) = Day t + k"
proof -
  have "MonthFromTime t div 12 = 0" "MonthFromTime t mod 12 = MonthFromTime t"
    using MonthFromTime_range [of t] by simp_all
  then show ?thesis
    by (simp add: MakeDay_def DateFromTime_def DayWithinYear_def InLeapYear_def)
qed

lemma Day_TimeWithinDay: "Day t * msPerDay + TimeWithinDay t = t"
  by (simp add: Day_def TimeWithinDay_def)

lemma Day_shift: "Day (d + k * msPerDay) = Day d + k"
  by (simp add: Day_def msPerDay_def)

lemma TimeWithinDay_shift: "TimeWithinDay (d + k * msPerDay) = TimeWithinDay d"
  by (simp add: TimeWithinDay_def msPerDay_def)


lemma div_step:
  fixes x k :: int
  assumes "0 < k"
  shows "x div k = (x - 1) div k + (if x mod k = 0 then 1 else 0)"
proof -
  define q r where "q = (x - 1) div k" and "r = (x - 1) mod k"
  have r: "0 \<le> r" "r < k" using assms by (simp_all add: r_def)
  have "q * k + r = x - 1" by (simp add: q_def r_def)
  then have x: "x = q * k + (r + 1)" by simp
  show ?thesis
  proof (cases "r + 1 = k")
    case True
    then have "x = (q + 1) * k" using x by (simp add: algebra_simps)
    then have "x div k = q + 1" "x mod k = 0" using assms by simp_all
    then show ?thesis by (simp add: q_def)
  next
    case False
    then have lt: "r + 1 < k" using r by simp
    have "x div k = q + (r + 1) div k" using assms by (subst x) simp
    moreover have "x mod k = (r + 1) mod k" by (subst x) simp
    moreover have "(r + 1) div k = 0" "(r + 1) mod k = r + 1"
      using r lt by (simp_all add: div_pos_pos_trivial mod_pos_pos_trivial)
    ultimately show ?thesis using r by (simp add: q_def [symmetric])
  qed
qed

lemma mod_shift:
  "(y - 1968) mod 4 = y mod (4::int)" "(y - 1900) mod 100 = y mod (100::int)"
  "(y - 1600) mod 400 = y mod (400::int)"
  using mod_mult_self1 [of y "- 492" 4] mod_mult_self1 [of y "- 19" 100]
    mod_mult_self1 [of y "- 4" 400]
  by simp_all

lemma dvd_chain:
  fixes y :: int
  shows "y mod 100 = 0 \<Longrightarrow> y mod 4 = 0" and "y mod 400 = 0 \<Longrightarrow> y mod 100 = 0"
proof -
  have "(4::int) dvd 100" "(100::int) dvd 400" by simp_all
  then show "y mod 100 = 0 \<Longrightarrow> y mod 4 = 0" "y mod 400 = 0 \<Longrightarrow> y mod 100 = 0"
    by (meson dvd_trans mod_0_imp_dvd dvd_imp_mod_0)+
qed

lemma DayFromYear_next: "DayFromYear (y + 1) = DayFromYear y + DaysInYear y"
proof -
  define A B C where "A = (y - 1969) div 4" and "B = (y - 1901) div 100"
    and "C = (y - 1601) div 400"
  define ia ib ic :: int where "ia = (if y mod 4 = 0 then 1 else 0)"
    and "ib = (if y mod 100 = 0 then 1 else 0)" and "ic = (if y mod 400 = 0 then 1 else 0)"
  have a: "(y - 1968) div 4 = A + ia"
    using div_step [of 4 "y - 1968"] by (simp add: mod_shift A_def ia_def)
  have b: "(y - 1900) div 100 = B + ib"
    using div_step [of 100 "y - 1900"] by (simp add: mod_shift B_def ib_def)
  have c: "(y - 1600) div 400 = C + ic"
    using div_step [of 400 "y - 1600"] by (simp add: mod_shift C_def ic_def)
  have e: "y + 1 - 1970 = (y - 1970) + 1" "y + 1 - 1969 = y - 1968" "y + 1 - 1901 = y - 1900"
    "y + 1 - 1601 = y - 1600"
    by simp_all
  have n: "DayFromYear (y + 1) = 365 * ((y - 1970) + 1) + (A + ia) - (B + ib) + (C + ic)"
    by (simp only: DayFromYear_def e a b c)
  have o: "DayFromYear y = 365 * (y - 1970) + A - B + C"
    by (simp only: DayFromYear_def A_def B_def C_def)
  have d: "DaysInYear y = 365 + ia - ib + ic"
    using dvd_chain [of y] by (auto simp: DaysInYear_def ia_def ib_def ic_def)
  show ?thesis
    unfolding n o d by (simp only: distrib_left mult_1_right)
qed

lemma DaysInYear_ge: "365 \<le> DaysInYear y" "DaysInYear y = 365 + InLeapYearOf y"
  by (simp_all add: DaysInYear_def InLeapYearOf_def)

lemma DayFromYear_mono_nat: "DayFromYear y \<le> DayFromYear (y + int k)"
proof (induction k)
  case 0
  then show ?case by simp
next
  case (Suc k)
  have "y + int (Suc k) = y + int k + 1" by simp
  then have "DayFromYear (y + int (Suc k)) = DayFromYear (y + int k) + DaysInYear (y + int k)"
    by (simp only: DayFromYear_next)
  with Suc DaysInYear_ge(1) [of "y + int k"] show ?case by linarith
qed

lemma DayFromYear_mono: "a \<le> b \<Longrightarrow> DayFromYear a \<le> DayFromYear b"
  using DayFromYear_mono_nat [of a "nat (b - a)"] by simp




lemma setDate_getDate: "setDate z d (getDate z d + k) = UTC z (LocalTime z d + k * msPerDay)"
proof -
  define t where "t = LocalTime z d"
  have "MakeDate (MakeDay (YearFromTime t) (MonthFromTime t) (DateFromTime t + k))
      (TimeWithinDay t) = (Day t + k) * msPerDay + TimeWithinDay t"
    by (simp add: MakeDay_of_time MakeDate_def)
  also have "\<dots> = (Day t * msPerDay + TimeWithinDay t) + k * msPerDay"
    by (simp add: algebra_simps)
  also have "\<dots> = t + k * msPerDay"
    by (simp only: Day_TimeWithinDay)
  finally show ?thesis
    by (simp add: setDate_def getDate_def Let_def t_def)
qed

lemma addDays_eq: "addDays z d k = UTC z (LocalTime z d + k * msPerDay)"
  by (simp add: addDays_def setDate_getDate)







lemma LocalTime_fixed: "LocalTime (fixedZone c) t = t + c"
  and UTC_fixed: "UTC (fixedZone c) t = t - c"
  by (simp_all add: LocalTime_def UTC_def fixedZone_def)





lemma santiago_values:
  "newDate santiago 2025 8 7 12 0 = 1757257200000"
  "LocalTime santiago (newDate santiago 2025 8 7 12 0) = 1757246400000"
  "setHours santiago (newDate santiago 2025 8 7 12 0) 0 0 0 0 = 1757217600000"
  "LocalTime santiago (setHours santiago (newDate santiago 2025 8 7 12 0) 0 0 0 0) = 1757206800000"
  "startOfWeekMonday santiago (newDate santiago 2025 8 7 12 0) = 1756702800000"
  by code_simp+

subsection \<open>The week range label\<close>

lemma Day_mono: "a \<le> b \<Longrightarrow> Day a \<le> Day b"
  by (simp add: Day_def msPerDay_def zdiv_mono1)

lemma local_addDays_bounds:
  assumes "boundedZone z"
  shows "Day (LocalTime z m) + (k - 2) \<le> Day (LocalTime z (addDays z m k))"
    and "Day (LocalTime z (addDays z m k)) \<le> Day (LocalTime z m) + (k + 2)"
proof -
  define L where "L = LocalTime z m"
  define x where "x = L + k * msPerDay"
  define o1 where "o1 = z x False"
  define o2 where "o2 = z (x - o1) True"
  have b: "\<bar>o1\<bar> \<le> msPerDay" "\<bar>o2\<bar> \<le> msPerDay"
    using assms by (simp_all add: boundedZone_def o1_def o2_def)
  have l: "LocalTime z (addDays z m k) = x - o1 + o2"
    by (simp add: addDays_eq LocalTime_def UTC_def x_def o1_def o2_def L_def)
  have "L + (k - 2) * msPerDay \<le> x - o1 + o2" "x - o1 + o2 \<le> L + (k + 2) * msPerDay"
    using b by (simp_all add: x_def algebra_simps)
  then have "Day (L + (k - 2) * msPerDay) \<le> Day (x - o1 + o2)"
    "Day (x - o1 + o2) \<le> Day (L + (k + 2) * msPerDay)"
    by (simp_all only: Day_mono)
  then show "Day (LocalTime z m) + (k - 2) \<le> Day (LocalTime z (addDays z m k))"
    and "Day (LocalTime z (addDays z m k)) \<le> Day (LocalTime z m) + (k + 2)"
    by (simp_all only: l Day_shift L_def)
qed

lemma same_month_same_year:
  assumes "boundedZone z" and "getMonth z m = getMonth z (addDays z m 4)"
  shows "getFullYear z m = getFullYear z (addDays z m 4)"
proof (rule ccontr)
  assume ne: "getFullYear z m \<noteq> getFullYear z (addDays z m 4)"
  define t where "t = LocalTime z m"
  define t' where "t' = LocalTime z (addDays z m 4)"
  define D where "D = Day t"
  define D' where "D' = Day t'"
  define y where "y = YearFromTime t"
  define y' where "y' = YearFromTime t'"
  have D': "D + 2 \<le> D'" "D' \<le> D + 6"
    using local_addDays_bounds [OF assms(1), of m 4] by (simp_all add: D_def D'_def t_def t'_def)
  have y: "DayFromYear y \<le> D" "D < DayFromYear (y + 1)"
    using YearFromTime_correct [of t] by (simp_all add: y_def D_def)
  have y': "DayFromYear y' \<le> D'" "D' < DayFromYear (y' + 1)"
    using YearFromTime_correct [of t'] by (simp_all add: y'_def D'_def)
  have "\<not> y' + 1 \<le> y"
    using DayFromYear_mono [of "y' + 1" y] y y' D' by linarith
  moreover have "\<not> y + 2 \<le> y'"
  proof
    assume "y + 2 \<le> y'"
    then have "DayFromYear (y + 1 + 1) \<le> DayFromYear y'"
      using DayFromYear_mono [of "y + 1 + 1" y'] by simp
    then show False
      using DayFromYear_next [of "y + 1"] DaysInYear_ge(1) [of "y + 1"] y y' D' by linarith
  qed
  moreover have "y \<noteq> y'" using ne by (simp add: getFullYear_def y_def y'_def t_def t'_def)
  ultimately have yy: "y' = y + 1" by linarith
  have L: "InLeapYearOf y = 0 \<or> InLeapYearOf y = 1" by (simp add: InLeapYearOf_def)
  have "DayWithinYear t \<ge> 359 + InLeapYearOf y"
    using y y' D' DayFromYear_next [of y] DaysInYear_ge(2) [of y]
    by (simp add: DayWithinYear_def D_def [symmetric] y_def [symmetric] yy)
  then have "MonthFromTime t = 11"
    using L by (auto simp: MonthFromTime_def Let_def InLeapYear_def y_def [symmetric])
  moreover have "0 \<le> DayWithinYear t'" "DayWithinYear t' < 6"
    using y y' D' by (simp_all add: DayWithinYear_def D'_def [symmetric] y'_def [symmetric] yy)
  then have "MonthFromTime t' = 0"
    by (simp add: MonthFromTime_def Let_def)
  ultimately show False
    using assms(2) by (simp add: getMonth_def t_def t'_def)
qed

lemma DK_MONTH_at_getMonth: "DK_MONTH_at (getMonth z d) \<in> set DK_MONTH"
proof -
  have l: "length DK_MONTH = 12" by (simp add: DK_MONTH_def)
  have r: "0 \<le> getMonth z d" "getMonth z d < 12"
    using MonthFromTime_range [of "LocalTime z d"] by (simp_all add: getMonth_def)
  then have "nat (getMonth z d) < length DK_MONTH" unfolding l by linarith
  then have "DK_MONTH ! nat (getMonth z d) \<in> set DK_MONTH" by (rule nth_mem)
  then show ?thesis using r by (simp add: DK_MONTH_at_def)
qed

lemma boundedZone_fixed: "\<bar>c\<bar> \<le> msPerDay \<Longrightarrow> boundedZone (fixedZone c)"
  by (simp add: boundedZone_def fixedZone_def)

text \<open>In a zone of constant offset, the getters of a date built from local fields read
  these fields, and \<open>addDays\<close> shifts the time value by whole days.\<close>

lemma fixed_local:
  "LocalTime (fixedZone c) (newDate (fixedZone c) y mo d h mi)
     = MakeDate (MakeDay y mo d) (MakeTime h mi 0 0)"
  "LocalTime (fixedZone c) (addDays (fixedZone c) t k) = LocalTime (fixedZone c) t + k * msPerDay"
  by (simp_all add: newDate_def addDays_eq LocalTime_fixed UTC_fixed)

lemma local_fields:
  "WeekDay (MakeDate (MakeDay 2025 0 27) (MakeTime 0 0 0 0)) = 1"
  "DateFromTime (MakeDate (MakeDay 2025 0 27) (MakeTime 0 0 0 0)) = 27"
  "MonthFromTime (MakeDate (MakeDay 2025 0 27) (MakeTime 0 0 0 0)) = 0"
  "DateFromTime (MakeDate (MakeDay 2025 0 27) (MakeTime 0 0 0 0) + 4 * msPerDay) = 31"
  "MonthFromTime (MakeDate (MakeDay 2025 0 27) (MakeTime 0 0 0 0) + 4 * msPerDay) = 0"
  "WeekDay (MakeDate (MakeDay 2025 3 28) (MakeTime 0 0 0 0)) = 1"
  "DateFromTime (MakeDate (MakeDay 2025 3 28) (MakeTime 0 0 0 0)) = 28"
  "MonthFromTime (MakeDate (MakeDay 2025 3 28) (MakeTime 0 0 0 0)) = 3"
  "DateFromTime (MakeDate (MakeDay 2025 3 28) (MakeTime 0 0 0 0) + 4 * msPerDay) = 2"
  "MonthFromTime (MakeDate (MakeDay 2025 3 28) (MakeTime 0 0 0 0) + 4 * msPerDay) = 4"
  by code_simp+

lemma week_range_examples:
  "getDay (fixedZone c) (newDate (fixedZone c) 2025 0 27 0 0) = 1"
  "formatWeekRange (fixedZone c) (newDate (fixedZone c) 2025 0 27 0 0)
     = lit ''27.'' @ [0x2013] @ lit ''31. jan''"
  "getDay (fixedZone c) (newDate (fixedZone c) 2025 3 28 0 0) = 1"
  "formatWeekRange (fixedZone c) (newDate (fixedZone c) 2025 3 28 0 0)
     = lit ''28. apr '' @ [0x2013] @ lit '' 2. maj''"
  by (simp_all add: formatWeekRange_def getDay_def getDate_def getMonth_def fixed_local
      local_fields Let_def DK_MONTH_at_def DK_MONTH_def ToString_def lit_def digit_def)

text \<open>
  Claim C8. For every start of a week \<open>m\<close> (a Monday in particular) and every zone, the
  label of \<open>formatWeekRange\<close> is "D.-D. month" (both days, the month once) when \<open>m\<close>
  and \<open>m\<close> plus 4 days, Monday to Friday, have the same month index, and
  "D. month - D. month" otherwise; in every zone whose offsets are below a day, the same
  month index means the same month of the same year, so the second form is the one of a
  span that crosses a month boundary; every month name is one of \<open>DK_MONTH\<close>. In every
  zone of constant offset, Monday 2025-01-27 gives "27.-31. jan" and Monday 2025-04-28
  gives "28. apr - 2. maj", where the dash is the en dash, code unit \<open>0x2013\<close>.
\<close>

theorem formatWeekRange_label:
  "formatWeekRange z m =
     (if getMonth z m = getMonth z (addDays z m 4)
      then ToString (getDate z m) @ lit ''.'' @ [0x2013] @ ToString (getDate z (addDays z m 4))
           @ lit ''. '' @ DK_MONTH_at (getMonth z m)
      else ToString (getDate z m) @ lit ''. '' @ DK_MONTH_at (getMonth z m) @ lit '' ''
           @ [0x2013] @ lit '' '' @ ToString (getDate z (addDays z m 4)) @ lit ''. ''
           @ DK_MONTH_at (getMonth z (addDays z m 4)))
   \<and> (boundedZone z \<longrightarrow>
        formatWeekRange z m =
          (if getFullYear z m = getFullYear z (addDays z m 4)
              \<and> getMonth z m = getMonth z (addDays z m 4)
           then ToString (getDate z m) @ lit ''.'' @ [0x2013]
                @ ToString (getDate z (addDays z m 4)) @ lit ''. '' @ DK_MONTH_at (getMonth z m)
           else ToString (getDate z m) @ lit ''. '' @ DK_MONTH_at (getMonth z m) @ lit '' ''
                @ [0x2013] @ lit '' '' @ ToString (getDate z (addDays z m 4)) @ lit ''. ''
                @ DK_MONTH_at (getMonth z (addDays z m 4))))
   \<and> DK_MONTH_at (getMonth z m) \<in> set DK_MONTH
   \<and> DK_MONTH_at (getMonth z (addDays z m 4)) \<in> set DK_MONTH
   \<and> getDay (fixedZone c) (newDate (fixedZone c) 2025 0 27 0 0) = 1
   \<and> formatWeekRange (fixedZone c) (newDate (fixedZone c) 2025 0 27 0 0)
       = lit ''27.'' @ [0x2013] @ lit ''31. jan''
   \<and> getDay (fixedZone c) (newDate (fixedZone c) 2025 3 28 0 0) = 1
   \<and> formatWeekRange (fixedZone c) (newDate (fixedZone c) 2025 3 28 0 0)
       = lit ''28. apr '' @ [0x2013] @ lit '' 2. maj''"
proof -
  have code: "formatWeekRange z m =
     (if getMonth z m = getMonth z (addDays z m 4)
      then ToString (getDate z m) @ lit ''.'' @ [0x2013] @ ToString (getDate z (addDays z m 4))
           @ lit ''. '' @ DK_MONTH_at (getMonth z m)
      else ToString (getDate z m) @ lit ''. '' @ DK_MONTH_at (getMonth z m) @ lit '' ''
           @ [0x2013] @ lit '' '' @ ToString (getDate z (addDays z m 4)) @ lit ''. ''
           @ DK_MONTH_at (getMonth z (addDays z m 4)))"
    by (simp add: formatWeekRange_def Let_def)
  have "getMonth z m = getMonth z (addDays z m 4)
      \<longleftrightarrow> getFullYear z m = getFullYear z (addDays z m 4)
          \<and> getMonth z m = getMonth z (addDays z m 4)"
    if "boundedZone z"
    using same_month_same_year [OF that, of m] by blast
  with code have "boundedZone z \<longrightarrow>
        formatWeekRange z m =
          (if getFullYear z m = getFullYear z (addDays z m 4)
              \<and> getMonth z m = getMonth z (addDays z m 4)
           then ToString (getDate z m) @ lit ''.'' @ [0x2013]
                @ ToString (getDate z (addDays z m 4)) @ lit ''. '' @ DK_MONTH_at (getMonth z m)
           else ToString (getDate z m) @ lit ''. '' @ DK_MONTH_at (getMonth z m) @ lit '' ''
                @ [0x2013] @ lit '' '' @ ToString (getDate z (addDays z m 4)) @ lit ''. ''
                @ DK_MONTH_at (getMonth z (addDays z m 4)))"
    by simp
  with code show ?thesis
    by (simp only: DK_MONTH_at_getMonth week_range_examples simp_thms)
qed

text \<open>Central European time has offsets below a day; the week of Monday 2025-04-28
  crosses a month boundary within the year 2025.\<close>

theorem formatWeekRange_label_witness:
  "boundedZone cet
   \<and> formatWeekRange cet (newDate cet 2025 3 28 0 0)
       = lit ''28. apr '' @ [0x2013] @ lit '' 2. maj''
   \<and> getFullYear cet (newDate cet 2025 3 28 0 0)
       = getFullYear cet (addDays cet (newDate cet 2025 3 28 0 0) 4)
   \<and> getMonth cet (newDate cet 2025 3 28 0 0)
       \<noteq> getMonth cet (addDays cet (newDate cet 2025 3 28 0 0) 4)"
proof -
  have b: "boundedZone cet"
    unfolding cet_def by (rule boundedZone_fixed) (simp add: msPerDay_def)
  have y: "getFullYear cet (newDate cet 2025 3 28 0 0) = 2025"
    "getFullYear cet (addDays cet (newDate cet 2025 3 28 0 0) 4) = 2025"
    "getMonth cet (newDate cet 2025 3 28 0 0) = 3"
    "getMonth cet (addDays cet (newDate cet 2025 3 28 0 0) 4) = 4"
    by code_simp+
  have "formatWeekRange cet (newDate cet 2025 3 28 0 0)
      = lit ''28. apr '' @ [0x2013] @ lit '' 2. maj''"
    using formatWeekRange_label [of cet "newDate cet 2025 3 28 0 0" 3600000]
    unfolding cet_def by blast
  then show ?thesis
    using b y by simp
qed

section \<open>Trimming\<close>

lemma trim_no_leading: "trim s \<noteq> [] \<Longrightarrow> \<not> isWhiteSpace (hd (trim s))"
proof -
  define t where "t = dropWhile isWhiteSpace s"
  define u where "u = dropWhile isWhiteSpace (rev t)"
  assume ne: "trim s \<noteq> []"
  then have u: "u \<noteq> []" by (simp add: trim_def u_def t_def)
  have "takeWhile isWhiteSpace (rev t) @ u = rev t" by (simp add: u_def)
  then have "t = rev u @ rev (takeWhile isWhiteSpace (rev t))"
    by (metis rev_append rev_rev_ident)
  then have "hd t = hd (rev u)" using u by (metis hd_append2 rev_is_Nil_conv)
  moreover have "t \<noteq> []" using u by (auto simp: u_def)
  then have "\<not> isWhiteSpace (hd t)" unfolding t_def by (rule hd_dropWhile)
  ultimately show ?thesis by (simp add: trim_def u_def t_def)
qed

lemma trim_no_trailing: "trim s \<noteq> [] \<Longrightarrow> \<not> isWhiteSpace (last (trim s))"
proof -
  define u where "u = dropWhile isWhiteSpace (rev (dropWhile isWhiteSpace s))"
  assume "trim s \<noteq> []"
  then have u: "u \<noteq> []" by (simp add: trim_def u_def)
  then have "\<not> isWhiteSpace (hd u)" unfolding u_def by (rule hd_dropWhile)
  then show ?thesis using u by (simp add: trim_def u_def [symmetric] last_rev)
qed

lemma dropWhile_id: "xs = [] \<or> \<not> P (hd xs) \<Longrightarrow> dropWhile P xs = xs"
  by (cases xs) auto

lemma trim_idem: "trim (trim s) = trim s"
proof (cases "trim s = []")
  case True
  have "trim [] = []" by (simp add: trim_def)
  with True show ?thesis by simp
next
  case False
  have a: "dropWhile isWhiteSpace (trim s) = trim s"
    using trim_no_leading [OF False] by (simp add: dropWhile_id)
  have "rev (trim s) \<noteq> []" using False by simp
  moreover have "hd (rev (trim s)) = last (trim s)" using False by (simp add: hd_rev)
  ultimately have b: "dropWhile isWhiteSpace (rev (trim s)) = rev (trim s)"
    using trim_no_trailing [OF False] by (simp add: dropWhile_id)
  show ?thesis
    by (subst (1) trim_def) (simp add: a b)
qed

section \<open>The slot index\<close>

lemma index_foldl:
  "foldl (\<lambda>index b. index(bookingKey (room b) (date b) (startMins b) \<mapsto> b)) m bs k \<noteq> None
   \<longleftrightarrow> m k \<noteq> None \<or> (\<exists>b\<in>set bs. bookingKey (room b) (date b) (startMins b) = k)"
  by (induction bs arbitrary: m) auto

lemma bookingsIndex_has:
  "bookingsIndex bs k \<noteq> None \<longleftrightarrow> (\<exists>b\<in>set bs. bookingKey (room b) (date b) (startMins b) = k)"
  by (simp only: bookingsIndex_def index_foldl) simp

lemma absent_key_no_booking:
  assumes "bookingsIndex bs (bookingKey (room ac) (date ac) (startMins ac)) = None"
  shows "filter (\<lambda>b. \<not> atCell ac b) bs = bs"
proof -
  have "\<not> atCell ac b" if "b \<in> set bs" for b
  proof
    assume "atCell ac b"
    then have "bookingKey (room b) (date b) (startMins b) = bookingKey (room ac) (date ac) (startMins ac)"
      by (simp add: atCell_def)
    with that assms show False using bookingsIndex_has by blast
  qed
  then show ?thesis by (simp add: filter_id_conv)
qed

section \<open>Optimistic create and its rollback\<close>

lemma confirmCreate_issued:
  assumes "activeCell s = Some ac" and "confirmCreate s = (s1, Some call)"
  shows "trim (nameInput s) \<noteq> []"
    and "bookingsIndex (bookings s) (bookingKey (room ac) (date ac) (startMins ac)) = None"
    and "call = Insert (bookingKey (room ac) (date ac) (startMins ac)) ac (trim (nameInput s))"
    and "s1 = s\<lparr>bookings := filter (\<lambda>b. \<not> atCell ac b) (bookings s)
                @ [\<lparr>room = room ac, date = date ac, startMins = startMins ac,
                    name = trim (nameInput s)\<rparr>]\<rparr>"
  using assms by (auto simp: confirmCreate_def Let_def split: if_splits)

text \<open>
  Claim C2. For every session and every create target \<open>ac\<close> whose key is absent from
  the slot index of the booking collection (with a name that is not empty after
  trimming, so that the create goes ahead): \<open>confirmCreate\<close> appends the optimistic
  booking and issues the insert, and if the insert fails, for any reason \<open>e\<close>, the
  booking collection after the rollback is equal to the collection before the optimistic
  append, element for element.
\<close>

theorem create_rollback_exact:
  assumes "activeCell s = Some ac"
    and "trim (nameInput s) \<noteq> []"
    and "bookingsIndex (bookings s) (bookingKey (room ac) (date ac) (startMins ac)) = None"
  shows "confirmCreate s =
           (s\<lparr>bookings := bookings s @ [\<lparr>room = room ac, date = date ac,
                                           startMins = startMins ac,
                                           name = trim (nameInput s)\<rparr>]\<rparr>,
            Some (Insert (bookingKey (room ac) (date ac) (startMins ac)) ac
                    (trim (nameInput s))))
         \<and> bookings (confirmCreate_resolved
               (s\<lparr>bookings := bookings s @ [\<lparr>room = room ac, date = date ac,
                                               startMins = startMins ac,
                                               name = trim (nameInput s)\<rparr>]\<rparr>)
               ac (Failed e)) = bookings s"
proof -
  have f: "filter (\<lambda>b. \<not> atCell ac b) (bookings s) = bookings s"
    using assms(3) by (rule absent_key_no_booking)
  have "confirmCreate s =
           (s\<lparr>bookings := bookings s @ [\<lparr>room = room ac, date = date ac,
                                           startMins = startMins ac,
                                           name = trim (nameInput s)\<rparr>]\<rparr>,
            Some (Insert (bookingKey (room ac) (date ac) (startMins ac)) ac
                    (trim (nameInput s))))"
    using assms by (simp add: confirmCreate_def Let_def f)
  moreover have "atCell ac \<lparr>room = room ac, date = date ac, startMins = startMins ac,
      name = trim (nameInput s)\<rparr>"
    by (simp add: atCell_def)
  ultimately show ?thesis
    by (simp add: confirmCreate_resolved_def f)
qed

lemma messages_differ:
  "msg_already_booked \<noteq> []" "msg_already_booked \<noteq> msg_enter_name"
  "msg_save_failed \<noteq> msg_already_booked" "msg_delete_failed \<noteq> msg_already_booked"
  by (simp_all add: msg_already_booked_def msg_enter_name_def msg_save_failed_def
      msg_delete_failed_def lit_def)

text \<open>The only step that sets the message "Tidsrummet er allerede booket." is the local
  check of \<open>confirmCreate\<close> against the slot index, which issues no store call.\<close>

lemma already_booked_only_local:
  assumes "errorMsg (step z s ev) = msg_already_booked" and "errorMsg s \<noteq> msg_already_booked"
  shows "ev = ConfirmCreate
    \<and> (\<exists>ac. activeCell s = Some ac
          \<and> bookingsIndex (bookings s) (bookingKey (room ac) (date ac) (startMins ac)) \<noteq> None)
    \<and> confirmCreate s = (s\<lparr>errorMsg := msg_already_booked\<rparr>, None)"
proof (cases ev)
  case ConfirmCreate
  then show ?thesis
    using assms messages_differ(2)
    by (auto simp: confirmCreate_def Let_def split: option.splits if_splits)
next
  case (InsertResolved ac res)
  then show ?thesis
    using assms messages_differ
    by (cases res) (auto simp: confirmCreate_resolved_def closeModal_def)
next
  case (DeleteResolved res)
  then show ?thesis
    using assms messages_differ
    by (cases res) (auto simp: confirmDelete_resolved_def closeModal_def)
next
  case (OnClickSlot dateObj m)
  then show ?thesis
    using assms messages_differ(1)
    by (auto simp: onClickSlot_def Let_def openCreateModal_def openDeleteModal_def
        split: option.splits if_splits)
next
  case (FetchResolved isMounted res)
  then show ?thesis
    using assms
    by (auto simp: fetchBookings_resolved_def Let_def split: fetch_result.splits if_splits)
next
  case ConfirmDelete
  then show ?thesis
    using assms by (auto simp: confirmDelete_def Let_def split: option.splits)
next
  case CloseModal
  then show ?thesis
    using assms messages_differ(1) by (auto simp: closeModal_def)
qed (use assms in \<open>auto simp: selectRoom_def Let_def resetToRoomSelection_def
       split: if_splits\<close>)

text \<open>
  Claim C1, amended. When the insert of the confirm-create flow fails, with a unique-key
  conflict or with any other error \<open>e\<close>, the rollback removes every booking at the
  target cell, the error is logged, the modal is left as it is (open or closed, its mode,
  target and input unchanged), and the message set is the generic \<open>msg_save_failed\<close>
  ("Kunne ikke gemme booking", could not save the booking), which differs from
  "Tidsrummet er allerede booket.". That message is set by one step only: a
  \<open>confirmCreate\<close> whose local check finds the key of the target in the slot index, and
  which then issues no store call.
\<close>

theorem insert_failure_generic_message:
  "bookings (confirmCreate_resolved s ac (Failed e)) = filter (\<lambda>b. \<not> atCell ac b) (bookings s)
   \<and> list_all (\<lambda>b. \<not> atCell ac b) (bookings (confirmCreate_resolved s ac (Failed e)))
   \<and> errorMsg (confirmCreate_resolved s ac (Failed e)) = msg_save_failed
   \<and> msg_save_failed \<noteq> msg_already_booked
   \<and> console (confirmCreate_resolved s ac (Failed e)) = console s @ [Logged e]
   \<and> modalOpen (confirmCreate_resolved s ac (Failed e)) = modalOpen s
   \<and> modalMode (confirmCreate_resolved s ac (Failed e)) = modalMode s
   \<and> activeCell (confirmCreate_resolved s ac (Failed e)) = activeCell s
   \<and> nameInput (confirmCreate_resolved s ac (Failed e)) = nameInput s
   \<and> (errorMsg (step z t ev) = msg_already_booked \<and> errorMsg t \<noteq> msg_already_booked
       \<longrightarrow> ev = ConfirmCreate
           \<and> (\<exists>ac'. activeCell t = Some ac'
                 \<and> bookingsIndex (bookings t)
                      (bookingKey (room ac') (date ac') (startMins ac')) \<noteq> None)
           \<and> confirmCreate t = (t\<lparr>errorMsg := msg_already_booked\<rparr>, None))"
proof -
  have "bookings (confirmCreate_resolved s ac (Failed e)) = filter (\<lambda>b. \<not> atCell ac b) (bookings s)
   \<and> list_all (\<lambda>b. \<not> atCell ac b) (bookings (confirmCreate_resolved s ac (Failed e)))
   \<and> errorMsg (confirmCreate_resolved s ac (Failed e)) = msg_save_failed
   \<and> console (confirmCreate_resolved s ac (Failed e)) = console s @ [Logged e]
   \<and> modalOpen (confirmCreate_resolved s ac (Failed e)) = modalOpen s
   \<and> modalMode (confirmCreate_resolved s ac (Failed e)) = modalMode s
   \<and> activeCell (confirmCreate_resolved s ac (Failed e)) = activeCell s
   \<and> nameInput (confirmCreate_resolved s ac (Failed e)) = nameInput s"
    by (simp add: confirmCreate_resolved_def list_all_iff)
  then show ?thesis
    using messages_differ(3) already_booked_only_local [of z t ev] by blast
qed

section \<open>Optimistic delete and its rollback\<close>

lemma snapshot_step: "ev \<noteq> ConfirmDelete \<Longrightarrow> bookingsSnapshotRef (step z s ev) = bookingsSnapshotRef s"
  by (cases ev)
     (auto simp: selectRoom_def fetchBookings_resolved_def onClickSlot_def openCreateModal_def
       openDeleteModal_def closeModal_def confirmCreate_def confirmCreate_resolved_def
       confirmDelete_resolved_def resetToRoomSelection_def Let_def
       split: option.splits fetch_result.splits store_result.splits)

lemma snapshot_run:
  "ConfirmDelete \<notin> set evs \<Longrightarrow> bookingsSnapshotRef (run z s evs) = bookingsSnapshotRef s"
  unfolding run_def by (induction evs arbitrary: s) (auto simp: snapshot_step)

text \<open>When no other \<open>confirmDelete\<close> is handled between the optimistic removal and the
  failure, the rollback restores the snapshot taken before the removal.\<close>

lemma delete_rollback_snapshot:
  assumes "activeCell s = Some ac" and "ConfirmDelete \<notin> set evs"
  shows "bookings (fst (confirmDelete s)) = filter (\<lambda>b. \<not> atCell ac b) (bookings s)
         \<and> bookings (confirmDelete_resolved (run z (fst (confirmDelete s)) evs) (Failed e)) = bookings s"
proof -
  have "bookingsSnapshotRef (fst (confirmDelete s)) = bookings s"
    using assms(1) by (simp add: confirmDelete_def Let_def)
  then have "bookingsSnapshotRef (run z (fst (confirmDelete s)) evs) = bookings s"
    using snapshot_run [OF assms(2)] by simp
  then show ?thesis
    using assms(1) by (simp add: confirmDelete_resolved_def confirmDelete_def Let_def)
qed

section \<open>Uniqueness of the composite key\<close>

lemma keyUnique_filter: "keyUnique bs \<Longrightarrow> keyUnique (filter P bs)"
  by (simp add: keyUnique_def distinct_map_filter)

lemma keyUnique_replace:
  assumes "keyUnique bs"
  shows "keyUnique (filter (\<lambda>b. \<not> atCell ac b) bs
           @ [\<lparr>room = room ac, date = date ac, startMins = startMins ac, name = nm\<rparr>])"
proof -
  have "(room ac, date ac, startMins ac) \<notin> cellOf ` set (filter (\<lambda>b. \<not> atCell ac b) bs)"
    by (auto simp: cellOf_def atCell_def)
  then show ?thesis
    using keyUnique_filter [OF assms, of "\<lambda>b. \<not> atCell ac b"]
    by (simp add: keyUnique_def cellOf_def)
qed

lemma keyUnique_step:
  assumes "keyUnique (bookings s)" and "successful ev"
  shows "keyUnique (bookings (step z s ev))"
proof (cases ev)
  case ConfirmCreate
  then show ?thesis
    using assms(1) by (auto simp: confirmCreate_def Let_def keyUnique_replace split: option.splits)
next
  case ConfirmDelete
  then show ?thesis
    using assms(1) by (auto simp: confirmDelete_def Let_def keyUnique_filter split: option.splits)
next
  case (InsertResolved ac res)
  then show ?thesis
    using assms by (cases res) (simp_all add: confirmCreate_resolved_def closeModal_def)
next
  case (DeleteResolved res)
  then show ?thesis
    using assms by (cases res) (simp_all add: confirmDelete_resolved_def closeModal_def)
next
  case (OnClickSlot dateObj m)
  then show ?thesis
    using assms(1)
    by (auto simp: onClickSlot_def Let_def openCreateModal_def openDeleteModal_def
        split: option.splits)
qed (use assms in \<open>simp_all add: selectRoom_def Let_def closeModal_def resetToRoomSelection_def\<close>)

lemma keyUnique_run:
  "keyUnique (bookings s) \<Longrightarrow> list_all successful evs \<Longrightarrow> keyUnique (bookings (run z s evs))"
  unfolding run_def by (induction evs arbitrary: s) (simp_all add: keyUnique_step)

text \<open>
  Claim C5. If no two bookings of the collection share a (room, date, startMins) triple,
  then after any sequence of events of create and delete flows whose store calls succeed
  no two bookings share one. \<open>confirmCreate\<close> rejects a target whose key is in the slot
  index (no store call, collection unchanged), and \<open>confirmDelete\<close> only removes
  bookings.
\<close>

theorem keyUnique_preserved:
  "(keyUnique (bookings s) \<and> list_all successful evs \<longrightarrow> keyUnique (bookings (run z s evs)))
   \<and> (activeCell t = Some ac
        \<and> bookingsIndex (bookings t) (bookingKey (room ac) (date ac) (startMins ac)) \<noteq> None
      \<longrightarrow> snd (confirmCreate t) = None \<and> bookings (fst (confirmCreate t)) = bookings t)
   \<and> set (bookings (fst (confirmDelete u))) \<subseteq> set (bookings u)"
proof -
  have "set (bookings (fst (confirmDelete u))) \<subseteq> set (bookings u)"
    by (auto simp: confirmDelete_def Let_def split: option.splits)
  moreover have "snd (confirmCreate t) = None \<and> bookings (fst (confirmCreate t)) = bookings t"
    if "activeCell t = Some ac"
      and "bookingsIndex (bookings t) (bookingKey (room ac) (date ac) (startMins ac)) \<noteq> None"
    using that by (simp add: confirmCreate_def Let_def)
  ultimately show ?thesis
    using keyUnique_run [of s evs z] by blast
qed

section \<open>Names\<close>

lemma trimmed_name:
  "trim (trim n) = trim n
   \<and> (trim n = [] \<or> (\<not> isWhiteSpace (hd (trim n)) \<and> \<not> isWhiteSpace (last (trim n))))"
  using trim_idem trim_no_leading trim_no_trailing by blast

text \<open>
  Claim C9, amended. Every booking admitted by \<open>normalizeBookings\<close> carries a trimmed
  name (trimming it again changes nothing; it is empty or has no white space at either
  end). The booking that \<open>confirmCreate\<close> appends carries a name that is trimmed and
  not empty.
\<close>

theorem names_trimmed:
  "(\<forall>b\<in>set (normalizeBookings raw).
       trim (name b) = name b
       \<and> (name b = [] \<or> (\<not> isWhiteSpace (hd (name b)) \<and> \<not> isWhiteSpace (last (name b)))))
   \<and> (activeCell s = Some ac \<and> confirmCreate s = (s1, Some call)
       \<longrightarrow> (\<exists>nm. call = Insert (bookingKey (room ac) (date ac) (startMins ac)) ac nm
                 \<and> bookings s1 = bookings s @ [\<lparr>room = room ac, date = date ac,
                                                  startMins = startMins ac, name = nm\<rparr>]
                 \<and> nm \<noteq> [] \<and> trim nm = nm
                 \<and> \<not> isWhiteSpace (hd nm) \<and> \<not> isWhiteSpace (last nm)))"
proof -
  have a: "\<forall>b\<in>set (normalizeBookings raw).
       trim (name b) = name b
       \<and> (name b = [] \<or> (\<not> isWhiteSpace (hd (name b)) \<and> \<not> isWhiteSpace (last (name b))))"
    using trimmed_name by (auto simp: normalizeBookings_def)
  have b: "\<exists>nm. call = Insert (bookingKey (room ac) (date ac) (startMins ac)) ac nm
                 \<and> bookings s1 = bookings s @ [\<lparr>room = room ac, date = date ac,
                                                  startMins = startMins ac, name = nm\<rparr>]
                 \<and> nm \<noteq> [] \<and> trim nm = nm
                 \<and> \<not> isWhiteSpace (hd nm) \<and> \<not> isWhiteSpace (last nm)"
    if h: "activeCell s = Some ac" "confirmCreate s = (s1, Some call)"
  proof -
    note i = confirmCreate_issued [OF h]
    have "bookings s1 = bookings s @ [\<lparr>room = room ac, date = date ac,
        startMins = startMins ac, name = trim (nameInput s)\<rparr>]"
      by (simp add: i(4) absent_key_no_booking [OF i(2)])
    then show ?thesis
      using i(1,3) trimmed_name [of "nameInput s"] by auto
  qed
  from a b show ?thesis by blast
qed

section \<open>Selecting a room and fetching\<close>

lemma normalizeBookings_append:
  "normalizeBookings (xs @ ys) = normalizeBookings xs @ normalizeBookings ys"
  by (simp add: normalizeBookings_def)

lemma wellTyped_iff:
  "wellTyped b \<longleftrightarrow>
     (\<exists>r d m n. raw_room b = JString r \<and> raw_date b = JString d
                \<and> raw_startMins b = Number m \<and> raw_name b = JString n)"
proof -
  have s: "typeof v = ''string'' \<longleftrightarrow> (\<exists>x. v = JString x)" for v by (cases v) simp_all
  have n: "typeof v = ''number'' \<longleftrightarrow> (\<exists>x. v = Number x)" for v by (cases v) simp_all
  show ?thesis unfolding wellTyped_def s n by blast
qed

lemma fetched_rows:
  "normalizeBookings
     (map (\<lambda>b. \<lparr>raw_room = row_room b, raw_date = row_date b,
                raw_startMins = row_start_mins b, raw_name = row_name b\<rparr>) rows)
   = concat (map admitted rows)"
proof (induction rows)
  case Nil
  then show ?case by (simp add: normalizeBookings_def)
next
  case (Cons x rows)
  have "normalizeBookings
     [\<lparr>raw_room = row_room x, raw_date = row_date x,
       raw_startMins = row_start_mins x, raw_name = row_name x\<rparr>] = admitted x"
    by (simp add: normalizeBookings_def wellTyped_def admitted_def split: jsval.splits)
  with Cons show ?case
    using normalizeBookings_append
      [of "[\<lparr>raw_room = row_room x, raw_date = row_date x,
             raw_startMins = row_start_mins x, raw_name = row_name x\<rparr>]"]
    by simp
qed

text \<open>
  Claim C4, amended. Selecting a room sets \<open>selectedRoom\<close> and \<open>loading\<close> and leaves
  the booking collection as it is (the bookings held before are not cleared). When the
  fetch succeeds, the collection becomes the fetched rows, in order, each row with a
  string room, a string date, a number \<^verbatim>\<open>start_mins\<close> and a string name kept with its
  name trimmed, every other row dropped without a log entry, and \<open>loading\<close> ends. When
  the fetch fails, the session goes on with the booking collection it had (unchanged,
  not emptied), the failure is logged, and \<open>loading\<close> ends.
\<close>

theorem select_room_and_fetch:
  "bookings (selectRoom s r) = bookings s
   \<and> selectedRoom (selectRoom s r) = Some r
   \<and> loading (selectRoom s r) = (if selectedRoom s = Some r \<or> r = [] then loading s else True)
   \<and> bookings (fetchBookings_resolved s True (FetchData (Some rows)))
       = concat (map admitted rows)
   \<and> bookings (fetchBookings_resolved s True (FetchData None)) = []
   \<and> loading (fetchBookings_resolved s True (FetchData data)) = False
   \<and> console (fetchBookings_resolved s True (FetchData data)) = console s
   \<and> bookings (fetchBookings_resolved s isMounted (FetchFailed e)) = bookings s
   \<and> console (fetchBookings_resolved s isMounted (FetchFailed e)) = console s @ [SupabaseFejl e]
   \<and> loading (fetchBookings_resolved s True (FetchFailed e)) = False"
proof -
  have rows: "bookings (fetchBookings_resolved s True (FetchData (Some rows)))
       = concat (map admitted rows)"
    by (simp add: fetchBookings_resolved_def fetched_rows)
  have rest: "bookings (selectRoom s r) = bookings s
   \<and> selectedRoom (selectRoom s r) = Some r
   \<and> loading (selectRoom s r) = (if selectedRoom s = Some r \<or> r = [] then loading s else True)
   \<and> bookings (fetchBookings_resolved s True (FetchData None)) = []
   \<and> loading (fetchBookings_resolved s True (FetchData data)) = False
   \<and> console (fetchBookings_resolved s True (FetchData data)) = console s
   \<and> bookings (fetchBookings_resolved s isMounted (FetchFailed e)) = bookings s
   \<and> console (fetchBookings_resolved s isMounted (FetchFailed e)) = console s @ [SupabaseFejl e]
   \<and> loading (fetchBookings_resolved s True (FetchFailed e)) = False"
    by (simp add: selectRoom_def fetchBookings_resolved_def normalizeBookings_def Let_def)
  from rows rest show ?thesis by (simp only: simp_thms)
qed

section \<open>The displayed week\<close>











section \<open>The sample session, evaluated\<close>

lemma ready_eval:
  "ready =
     \<lparr>selectedRoom = Some room308, weekStart = newDate cet 2025 2 10 0 0, bookings = [bo, eva],
      loading = False, modalOpen = False, modalMode = Create, activeCell = None,
      nameInput = [], errorMsg = [], bookingsSnapshotRef = [], console = []\<rparr>"
  by code_simp

lemma iso_dates:
  "toISODate cet (newDate cet 2025 2 10 0 0) = lit ''2025-03-10''"
  "toISODate cet (newDate cet 2025 2 11 0 0) = lit ''2025-03-11''"
  by code_simp+

lemmas str_defs = bookingKey_def bo_def eva_def ida_def room308_def ROOMS_def lit_def
  ToString_def digit_def

lemma room308_nonempty: "room308 \<noteq> []"
  by (simp add: room308_def ROOMS_def lit_def)

lemma index_ready:
  "bookingsIndex [bo, eva] (bookingKey room308 (lit ''2025-03-10'') 540) = Some bo"
  "bookingsIndex [bo, eva] (bookingKey room308 (lit ''2025-03-10'') 600) = None"
  "bookingsIndex [eva] (bookingKey room308 (lit ''2025-03-11'') 600) = Some eva"
  "bookingsIndex [bo, eva, ida] (bookingKey room308 (lit ''2025-03-10'') 540) = Some bo"
  by (simp_all add: bookingsIndex_def str_defs)

lemma creating_eval:
  "creating = ready\<lparr>modalOpen := True, activeCell := Some slotIda, nameInput := lit '' Ida ''\<rparr>"
  by (simp add: creating_def run_def onClickSlot_def iso_dates ready_eval index_ready
      room308_nonempty openCreateModal_def slotIda_def Let_def)

lemma deleting_eval:
  "deleting = ready\<lparr>modalOpen := True, modalMode := Delete, activeCell := Some slotBo\<rparr>"
  by (simp add: deleting_def run_def onClickSlot_def iso_dates ready_eval index_ready
      room308_nonempty openDeleteModal_def slotBo_def Let_def)

lemma trim_ida: "trim (lit '' Ida '') = lit ''Ida''"
  by (simp add: trim_def isWhiteSpace_def lit_def)

lemma atCell_sample:
  "\<not> atCell slotIda bo" "\<not> atCell slotIda eva" "atCell slotIda ida"
  "atCell slotBo bo" "\<not> atCell slotBo eva" "\<not> atCell slotBo ida"
  by (simp_all add: atCell_def slotIda_def slotBo_def bo_def eva_def ida_def lit_def)

lemma confirmCreate_creating:
  "confirmCreate creating =
     (creating\<lparr>bookings := [bo, eva, ida]\<rparr>,
      Some (Insert (bookingKey room308 (lit ''2025-03-10'') 600) slotIda (lit ''Ida'')))"
proof -
  have "room slotIda = room308" "date slotIda = lit ''2025-03-10''" "startMins slotIda = 600"
    by (simp_all add: slotIda_def)
  moreover have "lit ''Ida'' \<noteq> []" by (simp add: lit_def)
  moreover have "\<lparr>room = room308, date = lit ''2025-03-10'', startMins = 600, name = lit ''Ida''\<rparr> = ida"
    by (simp add: ida_def)
  ultimately show ?thesis
    by (simp add: confirmCreate_def creating_eval ready_eval trim_ida index_ready atCell_sample
        Let_def)
qed

theorem create_rollback_exact_witness:
  "activeCell creating = Some slotIda
   \<and> trim (nameInput creating) \<noteq> []
   \<and> bookingsIndex (bookings creating)
        (bookingKey (room slotIda) (date slotIda) (startMins slotIda)) = None
   \<and> bookings creating = [bo, eva]
   \<and> bookings (fst (confirmCreate creating)) = [bo, eva, ida]
   \<and> bookings (confirmCreate_resolved (fst (confirmCreate creating)) slotIda
        (Failed Failure)) = [bo, eva]"
proof -
  have a: "activeCell creating = Some slotIda" and b: "bookings creating = [bo, eva]"
    by (simp_all add: creating_eval ready_eval)
  have n: "trim (nameInput creating) \<noteq> []"
    by (simp add: creating_eval trim_ida) (simp add: lit_def)
  have i: "bookingsIndex (bookings creating)
        (bookingKey (room slotIda) (date slotIda) (startMins slotIda)) = None"
    by (simp add: b index_ready slotIda_def)
  have r: "bookings (confirmCreate_resolved (fst (confirmCreate creating)) slotIda
        (Failed Failure)) = bookings creating"
    using create_rollback_exact [OF a n i, of Failure] by simp
  have y: "bookings (fst (confirmCreate creating)) = [bo, eva, ida]"
    by (simp add: confirmCreate_creating)
  show ?thesis
    by (simp only: a n i i [unfolded b] r y b simp_thms)
qed

text \<open>The insert of Ida's booking fails with a conflict: the message is the generic one.\<close>

theorem conflict_message_counterexample:
  "confirmCreate creating =
       (creating\<lparr>bookings := [bo, eva, ida]\<rparr>,
        Some (Insert (bookingKey room308 (lit ''2025-03-10'') 600) slotIda (lit ''Ida'')))
   \<and> errorMsg (confirmCreate_resolved (creating\<lparr>bookings := [bo, eva, ida]\<rparr>) slotIda
        (Failed Conflict)) = msg_save_failed
   \<and> msg_save_failed \<noteq> msg_already_booked"
  using confirmCreate_creating
  by (simp add: confirmCreate_resolved_def msg_save_failed_def msg_already_booked_def lit_def)

lemma confirmDelete_deleting:
  "fst (confirmDelete deleting) = deleting\<lparr>bookingsSnapshotRef := [bo, eva], bookings := [eva]\<rparr>"
  by (simp add: confirmDelete_def deleting_eval ready_eval atCell_sample Let_def)

text \<open>
  Claim C3. If \<open>confirmDelete\<close> snapshots the collection, removes the booking at the
  target and the delete call fails, the collection should again be the snapshot taken
  before the removal, whatever local changes came in between, the removed booking back
  with its name. The code does not do this when a second \<open>confirmDelete\<close> is handled
  before the first delete fails, since both write the one \<open>bookingsSnapshotRef\<close>: with
  the delete modal open on Bo's booking and the collection \<open>[bo, eva]\<close>, two clicks on
  the delete button followed by the failure of both delete calls leave the collection
  \<open>[eva]\<close> under the message \<open>msg_delete_failed\<close>. Bo's booking, which the store still
  holds, is not restored, neither after the first failure nor after the second.
\<close>

theorem double_click_delete_loses_booking:
  "activeCell deleting = Some slotBo
   \<and> bookings deleting = [bo, eva]
   \<and> bookingsSnapshotRef (run cet deleting [ConfirmDelete]) = [bo, eva]
   \<and> bookingsSnapshotRef (run cet deleting [ConfirmDelete, ConfirmDelete]) = [eva]
   \<and> bookings (run cet deleting
        [ConfirmDelete, ConfirmDelete, DeleteResolved (Failed Failure)]) = [eva]
   \<and> bookings (run cet deleting
        [ConfirmDelete, ConfirmDelete, DeleteResolved (Failed Failure),
         DeleteResolved (Failed Failure)]) = [eva]
   \<and> errorMsg (run cet deleting
        [ConfirmDelete, ConfirmDelete, DeleteResolved (Failed Failure),
         DeleteResolved (Failed Failure)]) = msg_delete_failed
   \<and> bookingsIndex (bookings (run cet deleting
        [ConfirmDelete, ConfirmDelete, DeleteResolved (Failed Failure),
         DeleteResolved (Failed Failure)]))
        (bookingKey room308 (lit ''2025-03-10'') 540) = None"
proof -
  have a: "activeCell deleting = Some slotBo" and b: "bookings deleting = [bo, eva]"
    by (simp_all add: deleting_eval ready_eval)
  define s1 where "s1 = fst (confirmDelete deleting)"
  have s1: "s1 = deleting\<lparr>bookingsSnapshotRef := [bo, eva], bookings := [eva]\<rparr>"
    unfolding s1_def by (rule confirmDelete_deleting)
  have a1: "activeCell s1 = Some slotBo" "bookings s1 = [eva]"
    by (simp_all add: s1 a)
  define s2 where "s2 = fst (confirmDelete s1)"
  have s2: "bookingsSnapshotRef s2 = [eva]" "bookings s2 = [eva]"
    by (simp_all add: s2_def confirmDelete_def a1 Let_def atCell_sample)
  have r1: "run cet deleting [ConfirmDelete] = s1"
    and r2: "run cet deleting [ConfirmDelete, ConfirmDelete] = s2"
    by (simp_all add: run_def s1_def s2_def)
  have r3: "run cet deleting [ConfirmDelete, ConfirmDelete, DeleteResolved (Failed Failure)]
      = confirmDelete_resolved s2 (Failed Failure)"
    and r4: "run cet deleting [ConfirmDelete, ConfirmDelete, DeleteResolved (Failed Failure),
         DeleteResolved (Failed Failure)]
      = confirmDelete_resolved (confirmDelete_resolved s2 (Failed Failure)) (Failed Failure)"
    by (simp_all add: run_def s1_def s2_def)
  have i: "bookingsIndex [eva] (bookingKey room308 (lit ''2025-03-10'') 540) = None"
    by (simp add: bookingsIndex_def str_defs)
  show ?thesis
    unfolding r1 r2 r3 r4
    by (simp add: a b s1 s2 confirmDelete_resolved_def i)
qed

text \<open>
  The same with two bookings: while the delete of Bo's booking is pending, the user
  closes the modal and confirms the delete of Eva's booking; then the delete of Bo's
  booking fails, and the collection restored is the second snapshot, without Bo's booking.
\<close>

lemma overlapping_delete_loses_booking:
  "activeCell deleting = Some slotBo
   \<and> bookings deleting = [bo, eva]
   \<and> bookings (confirmDelete_resolved
         (run cet (fst (confirmDelete deleting))
            [CloseModal, OnClickSlot (newDate cet 2025 2 11 0 0) 600, ConfirmDelete])
         (Failed Failure)) = [eva]"
proof -
  have a: "activeCell deleting = Some slotBo" and b: "bookings deleting = [bo, eva]"
    by (simp_all add: deleting_eval ready_eval)
  define s3 where "s3 = run cet (fst (confirmDelete deleting))
      [CloseModal, OnClickSlot (newDate cet 2025 2 11 0 0) 600]"
  have s3: "activeCell s3 = Some \<lparr>room = room308, date = lit ''2025-03-11'', startMins = 600\<rparr>"
    "bookings s3 = [eva]"
    by (simp_all add: s3_def run_def confirmDelete_deleting)
      (simp_all add: closeModal_def onClickSlot_def iso_dates deleting_eval ready_eval
        index_ready room308_nonempty openDeleteModal_def Let_def)
  have "run cet (fst (confirmDelete deleting))
      [CloseModal, OnClickSlot (newDate cet 2025 2 11 0 0) 600, ConfirmDelete]
      = fst (confirmDelete s3)"
    by (simp add: s3_def run_def)
  then have "bookingsSnapshotRef (run cet (fst (confirmDelete deleting))
            [CloseModal, OnClickSlot (newDate cet 2025 2 11 0 0) 600, ConfirmDelete]) = [eva]"
    by (simp add: confirmDelete_def s3 Let_def)
  then show ?thesis
    using a b by (simp add: confirmDelete_resolved_def)
qed

lemma keyUnique_ready: "keyUnique [bo, eva]" "keyUnique [eva, ida]"
  by (simp_all add: keyUnique_def cellOf_def bo_def eva_def ida_def lit_def)

lemma run_append: "run z s (xs @ ys) = run z (run z s xs) ys"
  by (simp add: run_def)

lemma created_eval:
  "run cet creating [ConfirmCreate, InsertResolved slotIda Ok]
     = ready\<lparr>bookings := [bo, eva, ida]\<rparr>"
  by (simp add: run_def confirmCreate_creating confirmCreate_resolved_def closeModal_def)
     (simp add: creating_eval ready_eval)

lemma deleted_eval:
  "bookings (run cet (ready\<lparr>bookings := [bo, eva, ida]\<rparr>)
     [OnClickSlot (newDate cet 2025 2 10 0 0) 540, ConfirmDelete, DeleteResolved Ok]) = [eva, ida]"
  by (simp add: run_def onClickSlot_def iso_dates ready_eval index_ready room308_nonempty
      openDeleteModal_def confirmDelete_def confirmDelete_resolved_def closeModal_def Let_def
      slotBo_def [symmetric] atCell_sample)

text \<open>While the create modal is open, a refetch brings a booking of Per at the target.\<close>

lemma raced:
  "bookings (run cet creating
      [FetchResolved True
         (FetchData (Some [mkRow room308 (lit ''2025-03-10'') 600 (lit ''Per'')]))])
     = [\<lparr>room = room308, date = lit ''2025-03-10'', startMins = 600, name = lit ''Per''\<rparr>]"
  "activeCell (run cet creating
      [FetchResolved True
         (FetchData (Some [mkRow room308 (lit ''2025-03-10'') 600 (lit ''Per'')]))])
     = Some slotIda"
  by (simp_all add: run_def fetchBookings_resolved_def normalizeBookings_def wellTyped_def
      mkRow_def creating_eval ready_eval)
    (simp add: trim_def isWhiteSpace_def lit_def)

text \<open>In the raced session the local check of \<open>confirmCreate\<close> sets the already-booked
  message; the failed insert of the sample session sets the generic one.\<close>

theorem insert_failure_generic_message_witness:
  "errorMsg (step cet
       (run cet creating
          [FetchResolved True
             (FetchData (Some [mkRow room308 (lit ''2025-03-10'') 600 (lit ''Per'')]))])
       ConfirmCreate) = msg_already_booked
   \<and> errorMsg (run cet creating
          [FetchResolved True
             (FetchData (Some [mkRow room308 (lit ''2025-03-10'') 600 (lit ''Per'')]))])
       \<noteq> msg_already_booked
   \<and> snd (confirmCreate (run cet creating
          [FetchResolved True
             (FetchData (Some [mkRow room308 (lit ''2025-03-10'') 600 (lit ''Per'')]))]))
       = None
   \<and> errorMsg (confirmCreate_resolved (fst (confirmCreate creating)) slotIda (Failed Conflict))
       = msg_save_failed"
proof -
  define rs where "rs = run cet creating
          [FetchResolved True
             (FetchData (Some [mkRow room308 (lit ''2025-03-10'') 600 (lit ''Per'')]))]"
  have a: "activeCell rs = Some slotIda" unfolding rs_def by (rule raced)
  have n: "trim (nameInput rs) = lit ''Ida''" "errorMsg rs = []"
    by (simp_all add: rs_def run_def fetchBookings_resolved_def creating_eval ready_eval
        trim_ida)
  have "bookingsIndex (bookings rs) (bookingKey (room slotIda) (date slotIda) (startMins slotIda))
      = Some \<lparr>room = room308, date = lit ''2025-03-10'', startMins = 600, name = lit ''Per''\<rparr>"
    unfolding rs_def raced by (simp add: bookingsIndex_def slotIda_def)
  then have e: "errorMsg (step cet rs ConfirmCreate) = msg_already_booked"
    using a n by (simp add: confirmCreate_def Let_def lit_def)
  have ne: "errorMsg rs \<noteq> msg_already_booked"
    using messages_differ(1) by (simp add: n)
  from insert_failure_generic_message
    [of "fst (confirmCreate creating)" slotIda Conflict cet rs ConfirmCreate] e ne
  show ?thesis
    unfolding rs_def by simp
qed

theorem keyUnique_preserved_witness:
  "keyUnique (bookings ready)
   \<and> list_all successful
        [OnClickSlot (newDate cet 2025 2 10 0 0) 600, SetNameInput (lit '' Ida ''), ConfirmCreate,
         InsertResolved slotIda Ok, OnClickSlot (newDate cet 2025 2 10 0 0) 540, ConfirmDelete,
         DeleteResolved Ok]
   \<and> bookings (run cet ready
        [OnClickSlot (newDate cet 2025 2 10 0 0) 600, SetNameInput (lit '' Ida ''), ConfirmCreate,
         InsertResolved slotIda Ok, OnClickSlot (newDate cet 2025 2 10 0 0) 540, ConfirmDelete,
         DeleteResolved Ok]) = [eva, ida]
   \<and> keyUnique [eva, ida]
   \<and> activeCell (run cet creating
        [FetchResolved True
           (FetchData (Some [mkRow room308 (lit ''2025-03-10'') 600 (lit ''Per'')]))])
       = Some slotIda
   \<and> snd (confirmCreate (run cet creating
        [FetchResolved True
           (FetchData (Some [mkRow room308 (lit ''2025-03-10'') 600 (lit ''Per'')]))])) = None
   \<and> set (bookings (fst (confirmDelete deleting))) \<subseteq> set (bookings deleting)"
proof -
  define evs where "evs = [OnClickSlot (newDate cet 2025 2 10 0 0) 600, SetNameInput (lit '' Ida ''),
    ConfirmCreate, InsertResolved slotIda Ok, OnClickSlot (newDate cet 2025 2 10 0 0) 540,
    ConfirmDelete, DeleteResolved Ok]"
  define rs where "rs = run cet creating
        [FetchResolved True
           (FetchData (Some [mkRow room308 (lit ''2025-03-10'') 600 (lit ''Per'')]))]"
  have u: "keyUnique (bookings ready)" by (simp add: ready_eval keyUnique_ready)
  have l: "list_all successful evs" by (simp add: evs_def)
  have "evs = [OnClickSlot (newDate cet 2025 2 10 0 0) 600, SetNameInput (lit '' Ida '')]
      @ [ConfirmCreate, InsertResolved slotIda Ok]
      @ [OnClickSlot (newDate cet 2025 2 10 0 0) 540, ConfirmDelete, DeleteResolved Ok]"
    by (simp add: evs_def)
  then have r: "bookings (run cet ready evs) = [eva, ida]"
    by (simp only: run_append creating_def [symmetric] created_eval deleted_eval)
  have a: "activeCell rs = Some slotIda" unfolding rs_def by (rule raced)
  have "bookingsIndex (bookings rs) (bookingKey (room slotIda) (date slotIda) (startMins slotIda))
      = Some \<lparr>room = room308, date = lit ''2025-03-10'', startMins = 600, name = lit ''Per''\<rparr>"
    unfolding rs_def raced by (simp add: bookingsIndex_def slotIda_def)
  then have i: "bookingsIndex (bookings rs)
      (bookingKey (room slotIda) (date slotIda) (startMins slotIda)) \<noteq> None"
    by simp
  from keyUnique_preserved [of ready evs cet rs slotIda deleting] u l r a i
  show ?thesis
    unfolding evs_def rs_def by (simp add: keyUnique_ready)
qed

text \<open>A fetched row whose name is two spaces is admitted, with the empty name.\<close>

theorem empty_name_counterexample:
  "bookings (fetchBookings_resolved ready True
      (FetchData (Some [mkRow room308 (lit ''2025-03-10'') 540 (lit ''  '')])))
     = [\<lparr>room = room308, date = lit ''2025-03-10'', startMins = 540, name = []\<rparr>]
   \<and> trim (name (hd (bookings (fetchBookings_resolved ready True
      (FetchData (Some [mkRow room308 (lit ''2025-03-10'') 540 (lit ''  '')])))))) = []"
  by (simp add: fetchBookings_resolved_def normalizeBookings_def wellTyped_def mkRow_def)
     (simp add: trim_def isWhiteSpace_def lit_def)

theorem names_trimmed_witness:
  "normalizeBookings
      [\<lparr>raw_room = JString room308, raw_date = JString (lit ''2025-03-11''),
        raw_startMins = Number 600, raw_name = JString (lit '' Eva '')\<rparr>] = [eva]
   \<and> trim (name eva) = name eva
   \<and> activeCell creating = Some slotIda
   \<and> confirmCreate creating =
       (creating\<lparr>bookings := [bo, eva, ida]\<rparr>,
        Some (Insert (bookingKey room308 (lit ''2025-03-10'') 600) slotIda (lit ''Ida'')))
   \<and> lit ''Ida'' \<noteq> [] \<and> trim (lit ''Ida'') = lit ''Ida''"
proof -
  define raw where "raw = [\<lparr>raw_room = JString room308, raw_date = JString (lit ''2025-03-11''),
        raw_startMins = Number 600, raw_name = JString (lit '' Eva '')\<rparr>]"
  have "trim (lit '' Eva '') = lit ''Eva''" by (simp add: trim_def isWhiteSpace_def lit_def)
  then have n: "normalizeBookings raw = [eva]"
    by (simp add: raw_def normalizeBookings_def wellTyped_def eva_def)
  have a: "activeCell creating = Some slotIda" by (simp add: creating_eval)
  from names_trimmed [of raw creating slotIda "creating\<lparr>bookings := [bo, eva, ida]\<rparr>"
      "Insert (bookingKey room308 (lit ''2025-03-10'') 600) slotIda (lit ''Ida'')"]
    n a confirmCreate_creating
  show ?thesis
    unfolding raw_def by (simp add: slotIda_def)
qed

text \<open>After going back to the room selection and selecting room 308 again, the bookings
  fetched before are still held, and still shown when the new fetch fails.\<close>

theorem stale_bookings_counterexample:
  "bookings (run cet ready [ResetToRoomSelection (newDate cet 2025 2 12 9 5), SelectRoom room308])
     = [bo, eva]
   \<and> bookings (run cet ready [ResetToRoomSelection (newDate cet 2025 2 12 9 5), SelectRoom room308,
        FetchResolved True (FetchFailed Failure)]) = [bo, eva]
   \<and> bookingsIndex
        (bookings (run cet ready [ResetToRoomSelection (newDate cet 2025 2 12 9 5), SelectRoom room308,
           FetchResolved True (FetchFailed Failure)]))
        (bookingKey room308 (lit ''2025-03-10'') 540) = Some bo
   \<and> [bo, eva] \<noteq> []"
  by (simp add: run_def resetToRoomSelection_def selectRoom_def fetchBookings_resolved_def
      Let_def ready_eval index_ready room308_nonempty)

text \<open>A fetch of three rows, the second with a string in \<^verbatim>\<open>start_mins\<close> and no name.\<close>

theorem select_room_and_fetch_witness:
  "bookings (fetchBookings_resolved (selectRoom (initial cet (newDate cet 2025 2 12 9 0)) room308) True
      (FetchData (Some
         [mkRow room308 (lit ''2025-03-10'') 540 (lit ''Bo''),
          \<lparr>row_room = JString room308, row_date = JString (lit ''2025-03-10''),
            row_start_mins = JString (lit ''600''), row_name = Null\<rparr>,
          mkRow room308 (lit ''2025-03-11'') 600 (lit '' Eva '')]))) = [bo, eva]"
proof -
  have t: "trim (lit ''Bo'') = lit ''Bo''" "trim (lit '' Eva '') = lit ''Eva''"
    by (simp_all add: trim_def isWhiteSpace_def lit_def)
  have "concat (map admitted
         [mkRow room308 (lit ''2025-03-10'') 540 (lit ''Bo''),
          \<lparr>row_room = JString room308, row_date = JString (lit ''2025-03-10''),
            row_start_mins = JString (lit ''600''), row_name = Null\<rparr>,
          mkRow room308 (lit ''2025-03-11'') 600 (lit '' Eva '')]) = [bo, eva]"
    by (simp add: admitted_def mkRow_def t bo_def eva_def)
  then show ?thesis
    using select_room_and_fetch [of "selectRoom (initial cet (newDate cet 2025 2 12 9 0)) room308"
        room308
        "[mkRow room308 (lit ''2025-03-10'') 540 (lit ''Bo''),
          \<lparr>row_room = JString room308, row_date = JString (lit ''2025-03-10''),
            row_start_mins = JString (lit ''600''), row_name = Null\<rparr>,
          mkRow room308 (lit ''2025-03-11'') 600 (lit '' Eva '')]"]
    by simp
qed

end
